theory Spec2Isabelle
  imports Complex_Main
begin

section \<open>Pi Shield worker: media processing pipeline\<close>

text \<open>
  A shallow embedding of \<^verbatim>\<open>backend/worker/worker.py\<close>. Python floats are
  modelled as \<^typ>\<open>real\<close>, \<open>len\<close> results as \<^typ>\<open>nat\<close>, configuration
  integers as \<^typ>\<open>int\<close>, and \<open>str\<close> as \<^typ>\<open>string\<close> restricted to ASCII text.
  Calls that leave the process (storage, ffprobe, ffmpeg, the vision and speech
  services, the clock, the UUID generator) are fields of a record \<open>world\<close> that
  says what each call returns or raises; everything else is computed.
\<close>

subsection \<open>String operations of Python used by the worker\<close>

text \<open>\<open>s.startswith(p)\<close>.\<close>

fun startswith :: "string \<Rightarrow> string \<Rightarrow> bool" where
  "startswith [] s = True"
| "startswith (p # ps) [] = False"
| "startswith (p # ps) (c # cs) = (p = c \<and> startswith ps cs)"

text \<open>\<open>p in s\<close> for two strings: \<open>p\<close> occurs in \<open>s\<close> as a contiguous substring.\<close>

fun contains :: "string \<Rightarrow> string \<Rightarrow> bool" where
  "contains p [] = (p = [])"
| "contains p (c # cs) = (startswith p (c # cs) \<or> contains p cs)"

text \<open>\<open>s.lower()\<close> on ASCII text: each of the letters \<open>A\<close> to \<open>Z\<close> becomes its small letter.\<close>

definition lower_char :: "char \<Rightarrow> char" where
  "lower_char c =
     (case map_of (zip ''ABCDEFGHIJKLMNOPQRSTUVWXYZ'' ''abcdefghijklmnopqrstuvwxyz'') c of
        None \<Rightarrow> c
      | Some d \<Rightarrow> d)"

definition lower :: "string \<Rightarrow> string" where
  "lower s = map lower_char s"

text \<open>
  \<open>s.split()\<close> with no argument: the maximal runs of non-whitespace characters. The
  ASCII whitespace of Python's \<open>str\<close> is the code points 9 to 13, 28 to 31 and 32.
\<close>

definition is_space :: "char \<Rightarrow> bool" where
  "is_space c =
     (let n = (of_char c :: nat) in (9 \<le> n \<and> n \<le> 13) \<or> (28 \<le> n \<and> n \<le> 32))"

fun split_from :: "string \<Rightarrow> string \<Rightarrow> string list" where
  "split_from w [] = (if w = [] then [] else [w])"
| "split_from w (c # cs) =
     (if is_space c then (if w = [] then split_from [] cs else w # split_from [] cs)
      else split_from (w @ [c]) cs)"

definition split :: "string \<Rightarrow> string list" where
  "split s = split_from [] s"

subsection \<open>Signals\<close>

text \<open>The dictionary built by \<open>_process_face_annotation\<close>; likelihoods are enum names.\<close>

record face =
  detection_confidence :: real
  joy_likelihood :: string
  anger_likelihood :: string
  surprise_likelihood :: string
  under_exposed_likelihood :: string
  blurred_likelihood :: string
  headwear_likelihood :: string

text \<open>
  The \<open>Likelihood\<close> enum of the vision service, and its \<open>.name\<close>, which is what
  \<open>_process_face_annotation\<close> and \<open>_process_safe_search\<close> store.
\<close>

datatype likelihood = UNKNOWN | VERY_UNLIKELY | UNLIKELY | POSSIBLE | LIKELY | VERY_LIKELY

fun name :: "likelihood \<Rightarrow> string" where
  "name UNKNOWN = ''UNKNOWN''"
| "name VERY_UNLIKELY = ''VERY_UNLIKELY''"
| "name UNLIKELY = ''UNLIKELY''"
| "name POSSIBLE = ''POSSIBLE''"
| "name LIKELY = ''LIKELY''"
| "name VERY_LIKELY = ''VERY_LIKELY''"

record label =
  description :: string
  label_score :: real

record safe_search =
  adult :: string
  spoof :: string
  medical :: string
  violence :: string
  racy :: string

record localized_object =
  object_name :: string
  object_score :: real

record vision_results =
  vr_labels :: "label list"
  vr_faces :: "face list"
  vr_text :: string
  vr_safe_search :: safe_search
  vr_objects :: "localized_object list"

record image_info =
  ii_width :: int
  ii_height :: int
  ii_format :: string
  ii_mode :: string

record frame_result =
  fr_frame :: string
  fr_faces :: "face list"
  fr_labels :: "label list"

record video_info =
  duration :: real
  vi_size :: int
  vi_width :: int
  vi_height :: int
  fps :: real
  codec :: string

record text_stats =
  char_count :: nat
  word_count :: nat
  sentence_count :: nat
  paragraph_count :: nat

subsection \<open>Credibility scoring\<close>

text \<open>
  The entries the scoring functions append to \<open>factors\<close>. Each constructor stands
  for one message of the source and carries the values the message interpolates:
  \<^item> \<open>LowFaceConfidence\<close>: "Low face detection confidence"
  \<^item> \<open>BlurredFaces n\<close>: "n blurred faces detected"
  \<^item> \<open>Spoofing\<close>: "Potential spoofing detected"
  \<^item> \<open>ArtificialContent ds\<close>: "Artificial content indicators: ds"
  \<^item> \<open>InconsistentFaces\<close>: "Inconsistent face detection across frames"
  \<^item> \<open>LowAverageFaceConfidence\<close>: "Low average face detection confidence"
  \<^item> \<open>AISpeech\<close>: "AI-generated speech patterns detected"
  \<^item> \<open>LowResolution\<close>: "Low resolution video"
  \<^item> \<open>AIPatterns ps\<close>: "AI-generated patterns found: ps"
  \<^item> \<open>LongSentences\<close>: "Unusually long sentences"
  \<^item> \<open>ShortSentences\<close>: "Unusually short sentences"
  \<^item> \<open>HighRepetition\<close>: "High word repetition detected"
\<close>

datatype factor =
    LowFaceConfidence
  | BlurredFaces nat
  | Spoofing
  | ArtificialContent "string list"
  | InconsistentFaces
  | LowAverageFaceConfidence
  | AISpeech
  | LowResolution
  | AIPatterns "string list"
  | LongSentences
  | ShortSentences
  | HighRepetition

text \<open>
  The statement pair \<open>score -= p; factors.append(f)\<close> under its condition, on the
  pair of the two local variables \<open>(score, factors)\<close>.
\<close>

definition penalise :: "bool \<Rightarrow> real \<Rightarrow> factor \<Rightarrow> real \<times> factor list \<Rightarrow> real \<times> factor list" where
  "penalise c p f st = (if c then (fst st - p, snd st @ [f]) else st)"

text \<open>\<open>max(0.0, min(1.0, score))\<close>.\<close>

definition clamp :: "real \<Rightarrow> real" where
  "clamp score = max 0 (min 1 score)"

definition artificial_terms :: "string list" where
  "artificial_terms = [''artificial'', ''synthetic'', ''generated'', ''fake'', ''computer'']"

definition artificial_labels :: "label list \<Rightarrow> label list" where
  "artificial_labels labels =
     filter (\<lambda>l. \<exists>term \<in> set artificial_terms. contains term (lower (description l))) labels"

text \<open>
  \<open>_calculate_image_credibility\<close> up to the clamp: the values of \<open>score\<close> and
  \<open>factors\<close> when line 372 is reached.
\<close>

definition image_rules :: "vision_results \<Rightarrow> real \<times> factor list" where
  "image_rules vr =
     (let faces = vr_faces vr;
          st0 = (0.8, []);
          st1 = (if faces \<noteq> [] then
                   let avg_confidence = sum_list (map detection_confidence faces) / real (length faces);
                       st = penalise (avg_confidence < 0.7) 0.3 LowFaceConfidence st0;
                       blurred_faces = length (filter (\<lambda>f. contains ''LIKELY'' (blurred_likelihood f)) faces)
                   in penalise (blurred_faces > 0) 0.2 (BlurredFaces blurred_faces) st
                 else st0);
          st2 = penalise (spoof (vr_safe_search vr) \<in> set [''LIKELY'', ''VERY_LIKELY'']) 0.4 Spoofing st1;
          artificial = artificial_labels (vr_labels vr)
      in penalise (artificial \<noteq> []) 0.3 (ArtificialContent (map description artificial)) st2)"

datatype message =
    VideoTooLong real int
  | UnsupportedInputType string
  | Text string

datatype explanation =
    ImageExplanation "factor list" nat nat string
  | VideoExplanation "factor list" nat nat real
  | TextExplanation "factor list" nat nat string
  | ErrorExplanation message string

text \<open>\<open>explanation["primary_factors"]\<close>; the error report has no such key.\<close>

fun primary_factors :: "explanation \<Rightarrow> factor list option" where
  "primary_factors (ImageExplanation fs _ _ _) = Some fs"
| "primary_factors (VideoExplanation fs _ _ _) = Some fs"
| "primary_factors (TextExplanation fs _ _ _) = Some fs"
| "primary_factors (ErrorExplanation _ _) = None"

definition calculate_image_credibility :: "vision_results \<Rightarrow> image_info \<Rightarrow> real \<times> explanation" where
  "calculate_image_credibility vr info =
     (let (score, factors) = image_rules vr
      in (clamp score,
          ImageExplanation factors (length (vr_faces vr)) (length (artificial_labels (vr_labels vr)))
            (if ii_width info > 1000 then ''high'' else ''medium'')))"

text \<open>\<open>max\<close> and \<open>min\<close> of a list, called on non-empty lists only.\<close>

fun list_max :: "nat list \<Rightarrow> nat" where
  "list_max (x # xs) = foldl max x xs"

fun list_min :: "nat list \<Rightarrow> nat" where
  "list_min (x # xs) = foldl min x xs"

definition ai_phrases :: "string list" where
  "ai_phrases = [''as an ai'', ''i cannot'', ''i don't have personal'']"

definition video_rules :: "frame_result list \<Rightarrow> string \<Rightarrow> video_info \<Rightarrow> real \<times> factor list" where
  "video_rules frame_results transcript info =
     (let st0 = (0.75, []);
          face_counts = map (\<lambda>frame. length (fr_faces frame)) frame_results;
          st1 = (if face_counts \<noteq> [] then
                   let face_variance = int (list_max face_counts) - int (list_min face_counts);
                       st = penalise (face_variance > 2) 0.2 InconsistentFaces st0;
                       all_faces = concat (map fr_faces frame_results)
                   in (if all_faces \<noteq> [] then
                         let avg_confidence =
                               sum_list (map detection_confidence all_faces) / real (length all_faces)
                         in penalise (avg_confidence < 0.6) 0.3 LowAverageFaceConfidence st
                       else st)
                 else st0);
          st2 = (if transcript \<noteq> [] then
                   penalise (\<exists>phrase \<in> set ai_phrases. contains phrase (lower transcript)) 0.4 AISpeech st1
                 else st1)
      in penalise (vi_width info < 720) 0.1 LowResolution st2)"

definition calculate_video_credibility ::
    "frame_result list \<Rightarrow> string \<Rightarrow> video_info \<Rightarrow> real \<times> explanation" where
  "calculate_video_credibility frame_results transcript info =
     (let (score, factors) = video_rules frame_results transcript info
      in (clamp score,
          VideoExplanation factors (length frame_results)
            (if transcript \<noteq> [] then length (split transcript) else 0) (duration info)))"

definition text_rules :: "string \<Rightarrow> text_stats \<Rightarrow> string list \<Rightarrow> real \<times> factor list" where
  "text_rules text stats ai_patterns =
     (let st0 = (0.9, []);
          st1 = penalise (ai_patterns \<noteq> []) (min 0.6 (real (length ai_patterns) * 0.2))
                  (AIPatterns ai_patterns) st0;
          st2 = (if word_count stats > 0 then
                   let avg_sentence_length = real (word_count stats) / real (max 1 (sentence_count stats))
                   in (if avg_sentence_length > 30 then penalise True 0.1 LongSentences st1
                       else if avg_sentence_length < 5 then penalise True 0.1 ShortSentences st1
                       else st1)
                 else st1);
          words = split (lower text)
      in (if length words > 10 then
            let unique_words = card (set words);
                repetition_ratio = real unique_words / real (length words)
            in penalise (repetition_ratio < 0.3) 0.2 HighRepetition st2
          else st2))"

definition calculate_text_credibility ::
    "string \<Rightarrow> text_stats \<Rightarrow> string list \<Rightarrow> real \<times> explanation" where
  "calculate_text_credibility text stats ai_patterns =
     (let (score, factors) = text_rules text stats ai_patterns
      in (clamp score,
          TextExplanation factors (word_count stats) (length ai_patterns)
            (if factors = [] then ''normal'' else ''suspicious'')))"

text \<open>
  The amount each entry of \<open>factors\<close> stands for: the right-hand side of the
  \<open>score -=\<close> statement next to its \<open>append\<close>.
\<close>

fun weight :: "factor \<Rightarrow> real" where
  "weight LowFaceConfidence = 0.3"
| "weight (BlurredFaces n) = 0.2"
| "weight Spoofing = 0.4"
| "weight (ArtificialContent ds) = 0.3"
| "weight InconsistentFaces = 0.2"
| "weight LowAverageFaceConfidence = 0.3"
| "weight AISpeech = 0.4"
| "weight LowResolution = 0.1"
| "weight (AIPatterns ps) = min 0.6 (real (length ps) * 0.2)"
| "weight LongSentences = 0.1"
| "weight ShortSentences = 0.1"
| "weight HighRepetition = 0.2"

text \<open>
  A pair \<open>(score, factors)\<close> is accounted for from a base when the score is the
  base less the weights of the listed factors, each of them non-zero.
\<close>

definition accounted :: "real \<Rightarrow> real \<times> factor list \<Rightarrow> bool" where
  "accounted base st =
     (fst st = base - sum_list (map weight (snd st)) \<and> list_all (\<lambda>f. 0 < weight f) (snd st))"

subsection \<open>Frame sampling\<close>

text \<open>
  The slice \<open>xs[::k]\<close> for a step \<open>k \<ge> 1\<close>, the only steps the call site passes
  (Python raises on a zero step).
\<close>

fun slice_step :: "nat \<Rightarrow> 'a list \<Rightarrow> 'a list" where
  "slice_step k [] = []"
| "slice_step k (x # xs) = x # slice_step k (drop (k - 1) xs)"

text \<open>\<open>frame_paths[::max(1, len(frame_paths) // 10)]\<close>.\<close>

definition sample_frames :: "'a list \<Rightarrow> 'a list" where
  "sample_frames frame_paths = slice_step (max 1 (length frame_paths div 10)) frame_paths"

subsection \<open>Exceptions and the media processor's external calls\<close>

text \<open>
  An exception is its class and the message \<open>str(e)\<close> gives. The classes are those the
  worker raises or names in an \<open>except\<close> clause; every other subclass of
  \<open>Exception\<close> is \<open>OtherException\<close>.
\<close>

datatype exc_class = CalledProcessError | JSONDecodeError | KeyError | ValueError | OtherException

datatype error = Raised exc_class message

fun exc_class_of :: "error \<Rightarrow> exc_class" where
  "exc_class_of (Raised c m) = c"

fun str :: "error \<Rightarrow> message" where
  "str (Raised c m) = m"

text \<open>
  The output of ffprobe after \<open>json.loads\<close>. A key may be missing; a value that is
  passed to \<open>float\<close>, \<open>int\<close> or \<open>eval\<close> is represented by what that call does
  with it: return a number or raise.
\<close>

datatype 'a field = Missing | Value 'a | Bad error

record stream =
  codec_type :: "string option"
  st_width :: "int field"
  st_height :: "int field"
  r_frame_rate :: "real field"
  codec_name :: "string option"

record probe_format =
  pf_duration :: "real field"
  pf_size :: "int field"

record probe_output =
  streams :: "stream list option"
  pr_format :: "probe_format option"

record job =
  analysis_id :: "string option"
  input_type :: "string option"
  input_uri :: "string option"

text \<open>
  What each call out of the process returns (\<open>Inr\<close>) or raises (\<open>Inl\<close>):
  \<^item> \<open>download_file\<close>: \<open>_download_file\<close>, from the URI to the local path;
  \<^item> \<open>open_image\<close>: lines 57 to 72, opening and resizing the image (its exception
    is raised again);
  \<^item> \<open>annotate_image\<close>: lines 75 to 102, reading the file and the vision request
    with five features;
  \<^item> \<open>annotate_frame\<close>: lines 145 to 155, the same for one frame, faces and labels;
  \<^item> \<open>ffprobe\<close>: lines 251 and 252, the subprocess and \<open>json.loads\<close>;
  \<^item> \<open>ffmpeg_frames\<close>: lines 276 and 277, the subprocess and the sorted frame files;
  \<^item> \<open>ffmpeg_audio\<close>: line 290;
  \<^item> \<open>audio_present\<close>: line 166, the audio file exists and is not empty;
  \<^item> \<open>recognize\<close>: lines 297 to 312, the joined transcript;
  \<^item> \<open>read_text\<close>: lines 190 and 191;
  \<^item> \<open>json_loads\<close>: line 492 on a queue payload;
  \<^item> \<open>uuid_of\<close>: \<open>uuid.UUID(s)\<close>, \<open>None\<close> when it raises \<open>ValueError\<close>;
  \<^item> \<open>uuid4\<close> and \<open>utcnow\<close>: the value of the n-th call.
\<close>

record world =
  download_file :: "string \<Rightarrow> error + string"
  open_image :: "string \<Rightarrow> error + image_info"
  annotate_image :: "string \<Rightarrow> error + vision_results"
  annotate_frame :: "string \<Rightarrow> error + face list \<times> label list"
  ffprobe :: "string \<Rightarrow> error + probe_output"
  ffmpeg_frames :: "string \<Rightarrow> error + string list"
  ffmpeg_audio :: "string \<Rightarrow> error + unit"
  audio_present :: "string \<Rightarrow> bool"
  recognize :: "string \<Rightarrow> error + string"
  read_text :: "string \<Rightarrow> error + string"
  json_loads :: "string \<Rightarrow> error + job"
  uuid_of :: "string \<Rightarrow> nat option"
  uuid4 :: "nat \<Rightarrow> nat"
  utcnow :: "nat \<Rightarrow> nat"

record config =
  max_video_duration :: int
  frame_sample_rate :: int

text \<open>
  What the worker does that is visible outside it: the external calls of the media
  processor, the two SQL statements, and the two log lines of the consumer loop.
\<close>

datatype event =
    Download string
  | OpenImage string
  | AnnotateImage string
  | AnnotateFrame string
  | Probe string
  | ExtractFrames string
  | ExtractAudio string
  | Transcribe string
  | ReadText string
  | UpdateStatus nat string "nat option"
  | StoreReport nat
  | WorkerError error
  | ShuttingDown

text \<open>
  A method of \<open>MediaProcessor\<close> yields the calls it made, in order, and its result
  or the exception it raised.
\<close>

type_synonym 'a run = "event list \<times> (error + 'a)"

definition ret :: "'a \<Rightarrow> 'a run" where
  "ret x = ([], Inr x)"

definition raise_exc :: "error \<Rightarrow> 'a run" where
  "raise_exc e = ([], Inl e)"

definition call :: "event \<Rightarrow> (error + 'a) \<Rightarrow> 'a run" where
  "call ev r = ([ev], r)"

definition then_run :: "'a run \<Rightarrow> ('a \<Rightarrow> 'b run) \<Rightarrow> 'b run" where
  "then_run m f =
     (case snd m of
        Inl e \<Rightarrow> (fst m, Inl e)
      | Inr x \<Rightarrow> (fst m @ fst (f x), snd (f x)))"

text \<open>\<open>try: m except classes: return dflt\<close>.\<close>

definition except_return :: "exc_class list \<Rightarrow> 'a \<Rightarrow> 'a run \<Rightarrow> 'a run" where
  "except_return classes dflt m =
     (case snd m of
        Inl e \<Rightarrow> (if exc_class_of e \<in> set classes then (fst m, Inr dflt) else m)
      | Inr x \<Rightarrow> m)"

text \<open>\<open>except Exception\<close>: every class.\<close>

definition all_classes :: "exc_class list" where
  "all_classes = [CalledProcessError, JSONDecodeError, KeyError, ValueError, OtherException]"

definition key_error :: "string \<Rightarrow> error" where
  "key_error k = Raised KeyError (Text k)"

subsection \<open>Video metadata\<close>

definition and_then :: "(error + 'a) \<Rightarrow> ('a \<Rightarrow> error + 'b) \<Rightarrow> error + 'b" where
  "and_then r f = (case r of Inl e \<Rightarrow> Inl e | Inr x \<Rightarrow> f x)"

text \<open>\<open>conv(d.get(key, default))\<close> for \<open>conv\<close> one of \<open>float\<close>, \<open>int\<close>, \<open>eval\<close>.\<close>

fun get_converted :: "'a \<Rightarrow> 'a field \<Rightarrow> error + 'a" where
  "get_converted dflt Missing = Inr dflt"
| "get_converted dflt (Value v) = Inr v"
| "get_converted dflt (Bad e) = Inl e"

text \<open>The empty dictionary that \<open>next\<close> returns when no stream is a video stream.\<close>

definition no_stream :: stream where
  "no_stream = \<lparr>codec_type = None, st_width = Missing, st_height = Missing,
                 r_frame_rate = Missing, codec_name = None\<rparr>"

text \<open>
  \<open>next((s for s in info["streams"] if s["codec_type"] == "video"), {})\<close>: the
  generator stops at the first video stream, and raises at a stream without the key
  before it.
\<close>

fun first_video_stream :: "stream list \<Rightarrow> error + stream" where
  "first_video_stream [] = Inr no_stream"
| "first_video_stream (s # ss) =
     (case codec_type s of
        None \<Rightarrow> Inl (key_error ''codec_type'')
      | Some t \<Rightarrow> if t = ''video'' then Inr s else first_video_stream ss)"

text \<open>Lines 254 to 263, on the parsed output of ffprobe.\<close>

definition read_video_info :: "probe_output \<Rightarrow> error + video_info" where
  "read_video_info info =
     (case streams info of
        None \<Rightarrow> Inl (key_error ''streams'')
      | Some ss \<Rightarrow>
          and_then (first_video_stream ss) (\<lambda>video_stream.
            case pr_format info of
              None \<Rightarrow> Inl (key_error ''format'')
            | Some fmt \<Rightarrow>
                and_then (get_converted 0 (pf_duration fmt)) (\<lambda>d.
                and_then (get_converted 0 (pf_size fmt)) (\<lambda>sz.
                and_then (get_converted 0 (st_width video_stream)) (\<lambda>wd.
                and_then (get_converted 0 (st_height video_stream)) (\<lambda>ht.
                and_then (get_converted 0 (r_frame_rate video_stream)) (\<lambda>rate.
                  Inr \<lparr>duration = d, vi_size = sz, vi_width = wd, vi_height = ht, fps = rate,
                       codec = (case codec_name video_stream of None \<Rightarrow> ''unknown'' | Some c \<Rightarrow> c)\<rparr>)))))))"

definition zeroed_info :: video_info where
  "zeroed_info = \<lparr>duration = 0, vi_size = 0, vi_width = 0, vi_height = 0, fps = 0, codec = ''unknown''\<rparr>"

text \<open>The body of the \<open>try\<close> statement of \<open>_get_video_info\<close>, lines 251 to 263.\<close>

definition probe_video :: "world \<Rightarrow> string \<Rightarrow> video_info run" where
  "probe_video w video_path =
     then_run (call (Probe video_path) (ffprobe w video_path)) (\<lambda>info. ([], read_video_info info))"

definition get_video_info :: "world \<Rightarrow> string \<Rightarrow> video_info run" where
  "get_video_info w video_path =
     except_return [CalledProcessError, JSONDecodeError, KeyError] zeroed_info
       (probe_video w video_path)"

definition extract_frames :: "world \<Rightarrow> string \<Rightarrow> string list run" where
  "extract_frames w video_path =
     except_return [CalledProcessError] []
       (call (ExtractFrames video_path) (ffmpeg_frames w video_path))"

definition extract_audio :: "world \<Rightarrow> string \<Rightarrow> unit run" where
  "extract_audio w video_path =
     except_return [CalledProcessError] ()
       (call (ExtractAudio video_path) (ffmpeg_audio w video_path))"

definition transcribe_audio :: "world \<Rightarrow> string \<Rightarrow> string run" where
  "transcribe_audio w video_path =
     except_return all_classes [] (call (Transcribe video_path) (recognize w video_path))"

subsection \<open>The three pipelines of the media processor\<close>

type_synonym artifacts = "(string \<times> string) list"

text \<open>
  The dictionary a pipeline returns, and the one the failure handler builds. Only the
  keys \<open>credibility_score\<close>, \<open>explanation\<close> and \<open>artifacts\<close> are read when it is
  stored; the other keys differ by media kind.
\<close>

datatype details =
    ImageDetails vision_results image_info
  | VideoDetails video_info "frame_result list" string
  | TextDetails text_stats "string list" string
  | ErrorDetails message

record results =
  credibility_score :: "real option"
  explanation :: explanation
  artifacts :: "artifacts option"
  details :: details

definition get_input_uri :: "job \<Rightarrow> string run" where
  "get_input_uri j = (case input_uri j of None \<Rightarrow> raise_exc (key_error ''input_uri'') | Some u \<Rightarrow> ret u)"

definition process_image :: "world \<Rightarrow> job \<Rightarrow> results run" where
  "process_image w j =
     then_run (get_input_uri j) (\<lambda>uri.
     then_run (call (Download uri) (download_file w uri)) (\<lambda>local_path.
     then_run (call (OpenImage local_path) (open_image w local_path)) (\<lambda>info.
     then_run (call (AnnotateImage local_path) (annotate_image w local_path)) (\<lambda>vision.
       let (credibility, expl) = calculate_image_credibility vision info
       in ret \<lparr>credibility_score = Some credibility, explanation = expl, artifacts = None,
                details = ImageDetails vision info\<rparr>))))"

text \<open>The loop of lines 144 to 162 over the sampled frames.\<close>

fun analyze_frames :: "world \<Rightarrow> string list \<Rightarrow> frame_result list run" where
  "analyze_frames w [] = ret []"
| "analyze_frames w (frame_path # rest) =
     then_run (call (AnnotateFrame frame_path) (annotate_frame w frame_path)) (\<lambda>response.
     then_run (analyze_frames w rest) (\<lambda>others.
       ret (\<lparr>fr_frame = frame_path, fr_faces = fst response, fr_labels = snd response\<rparr> # others)))"

definition too_long :: "video_info \<Rightarrow> config \<Rightarrow> error" where
  "too_long info cfg = Raised ValueError (VideoTooLong (duration info) (max_video_duration cfg))"

definition process_video :: "world \<Rightarrow> config \<Rightarrow> job \<Rightarrow> results run" where
  "process_video w cfg j =
     then_run (get_input_uri j) (\<lambda>uri.
     then_run (call (Download uri) (download_file w uri)) (\<lambda>local_path.
     then_run (get_video_info w local_path) (\<lambda>info.
       if duration info > real_of_int (max_video_duration cfg) then raise_exc (too_long info cfg)
       else
         then_run (extract_frames w local_path) (\<lambda>frame_paths.
         then_run (extract_audio w local_path) (\<lambda>_.
         then_run (analyze_frames w (sample_frames frame_paths)) (\<lambda>frame_results.
         then_run (if audio_present w local_path then transcribe_audio w local_path else ret [])
           (\<lambda>transcript.
             let (credibility, expl) = calculate_video_credibility frame_results transcript info
             in ret \<lparr>credibility_score = Some credibility, explanation = expl, artifacts = None,
                      details = VideoDetails info frame_results transcript\<rparr>)))))))"

text \<open>\<open>s.split(sep)\<close> for a non-empty separator, and \<open>s.strip()\<close>.\<close>

fun split_on_from :: "string \<Rightarrow> string \<Rightarrow> string \<Rightarrow> string list" where
  "split_on_from sep piece [] = [piece]"
| "split_on_from sep piece (c # cs) =
     (if sep \<noteq> [] \<and> startswith sep (c # cs)
      then piece # split_on_from sep [] (drop (length sep - 1) cs)
      else split_on_from sep (piece @ [c]) cs)"

definition split_on :: "string \<Rightarrow> string \<Rightarrow> string list" where
  "split_on sep s = split_on_from sep [] s"

definition strip :: "string \<Rightarrow> string" where
  "strip s = rev (dropWhile is_space (rev (dropWhile is_space s)))"

text \<open>
  \<open>re.findall(pattern, s)\<close> for a pattern without special characters: its
  occurrences from left to right, none overlapping another.
\<close>

fun findall :: "string \<Rightarrow> string \<Rightarrow> string list" where
  "findall pattern [] = []"
| "findall pattern (c # cs) =
     (if pattern \<noteq> [] \<and> startswith pattern (c # cs)
      then pattern # findall pattern (drop (length pattern - 1) cs)
      else findall pattern cs)"

definition disclaimer_patterns :: "string list" where
  "disclaimer_patterns = [''as an ai'', ''i don't have personal'', ''i cannot provide'',
     ''as a language model'', ''i'm not able to'', ''i don't have the ability'',
     ''as an artificial intelligence'']"

definition text_statistics :: "string \<Rightarrow> text_stats" where
  "text_statistics text_content =
     \<lparr>char_count = length text_content,
      word_count = length (split text_content),
      sentence_count = length (filter (\<lambda>s. strip s \<noteq> []) (split_on ''.'' text_content)),
      paragraph_count =
        length (filter (\<lambda>p. strip p \<noteq> []) (split_on [CHR 0x0A, CHR 0x0A] text_content))\<rparr>"

definition process_text :: "world \<Rightarrow> job \<Rightarrow> results run" where
  "process_text w j =
     then_run (get_input_uri j) (\<lambda>uri.
     then_run (call (Download uri) (download_file w uri)) (\<lambda>local_path.
     then_run (call (ReadText local_path) (read_text w local_path)) (\<lambda>text_content.
       let stats = text_statistics text_content;
           pattern_matches = concat (map (\<lambda>pattern. findall pattern (lower text_content)) disclaimer_patterns);
           (credibility, expl) = calculate_text_credibility text_content stats pattern_matches
       in ret \<lparr>credibility_score = Some credibility, explanation = expl, artifacts = None,
                details = TextDetails stats pattern_matches
                  (if length text_content > 500 then take 500 text_content @ ''...''
                   else text_content)\<rparr>)))"

subsection \<open>The database\<close>

record analysis_row =
  a_user_id :: nat
  a_input_type :: string
  a_input_uri :: string
  a_status :: string
  a_created_at :: nat
  a_finished_at :: "nat option"

record report_row =
  r_id :: nat
  r_analysis_id :: nat
  r_credibility_score :: "real option"
  r_explanation :: explanation
  r_artifacts :: artifacts
  r_version :: string
  r_created_at :: nat

text \<open>
  The table \<open>analyses\<close> by its primary key, and the rows of \<open>analysis_reports\<close> in
  insertion order.
\<close>

record database =
  analyses :: "nat \<rightharpoonup> analysis_row"
  analysis_reports :: "report_row list"

text \<open>\<open>UPDATE analyses SET status = $1, finished_at = $2 WHERE id = $3\<close>.\<close>

definition update_analyses :: "string \<Rightarrow> nat option \<Rightarrow> nat \<Rightarrow> database \<Rightarrow> database" where
  "update_analyses status finished_at ident d =
     (case analyses d ident of
        None \<Rightarrow> d
      | Some row \<Rightarrow>
          d\<lparr>analyses := (analyses d)(ident \<mapsto> row\<lparr>a_status := status, a_finished_at := finished_at\<rparr>)\<rparr>)"

text \<open>
  \<open>INSERT INTO analysis_reports ... ON CONFLICT (analysis_id) DO UPDATE SET ...\<close>:
  the row that has the new row's \<open>analysis_id\<close> takes its four listed columns;
  without such a row the new row is inserted.
\<close>

fun upsert_report :: "report_row \<Rightarrow> report_row list \<Rightarrow> report_row list" where
  "upsert_report excluded [] = [excluded]"
| "upsert_report excluded (row # rows) =
     (if r_analysis_id row = r_analysis_id excluded
      then row\<lparr>r_credibility_score := r_credibility_score excluded,
               r_explanation := r_explanation excluded,
               r_artifacts := r_artifacts excluded,
               r_version := r_version excluded\<rparr> # rows
      else row # upsert_report excluded rows)"

subsection \<open>The worker\<close>

text \<open>
  The state the worker changes: the database, what it has done so far, and how many
  times it has read the clock and drawn a UUID.
\<close>

record wstate =
  db :: database
  events :: "event list"
  clock_reads :: nat
  uuids_drawn :: nat

text \<open>A method of \<open>Worker\<close> changes the state and returns or raises.\<close>

type_synonym 'a action = "wstate \<Rightarrow> wstate \<times> (error + 'a)"

definition and_next :: "'a action \<Rightarrow> ('a \<Rightarrow> 'b action) \<Rightarrow> 'b action" where
  "and_next m f st =
     (case m st of
        (st', Inl e) \<Rightarrow> (st', Inl e)
      | (st', Inr x) \<Rightarrow> f x st')"

text \<open>A call into the media processor: its external calls are appended to the record.\<close>

definition perform :: "'a run \<Rightarrow> 'a action" where
  "perform m st = (st\<lparr>events := events st @ fst m\<rparr>, snd m)"

definition bad_uuid :: error where
  "bad_uuid = Raised ValueError (Text ''badly formed hexadecimal UUID string'')"

definition update_analysis_status :: "world \<Rightarrow> string \<Rightarrow> string \<Rightarrow> unit action" where
  "update_analysis_status w ident status st =
     (let terminal = (status \<in> set [''done'', ''failed'']);
          finished_at = (if terminal then Some (utcnow w (clock_reads st)) else None);
          st1 = (if terminal then st\<lparr>clock_reads := clock_reads st + 1\<rparr> else st)
      in case uuid_of w ident of
           None \<Rightarrow> (st1, Inl bad_uuid)
         | Some u \<Rightarrow>
             (st1\<lparr>db := update_analyses status finished_at u (db st1),
                  events := events st1 @ [UpdateStatus u status finished_at]\<rparr>, Inr ()))"

definition store_results :: "world \<Rightarrow> string \<Rightarrow> results \<Rightarrow> unit action" where
  "store_results w ident res st =
     (let new_id = uuid4 w (uuids_drawn st);
          st1 = st\<lparr>uuids_drawn := uuids_drawn st + 1\<rparr>
      in case uuid_of w ident of
           None \<Rightarrow> (st1, Inl bad_uuid)
         | Some u \<Rightarrow>
             (let excluded = \<lparr>r_id = new_id, r_analysis_id = u,
                               r_credibility_score = credibility_score res,
                               r_explanation = explanation res,
                               r_artifacts = (case artifacts res of None \<Rightarrow> [] | Some a \<Rightarrow> a),
                               r_version = ''v1.0'',
                               r_created_at = utcnow w (clock_reads st1)\<rparr>
              in (st1\<lparr>db := (db st1)\<lparr>analysis_reports := upsert_report excluded (analysis_reports (db st1))\<rparr>,
                      events := events st1 @ [StoreReport u],
                      clock_reads := clock_reads st1 + 1\<rparr>, Inr ())))"

text \<open>Lines 520 to 528.\<close>

definition dispatch :: "world \<Rightarrow> config \<Rightarrow> string \<Rightarrow> job \<Rightarrow> results run" where
  "dispatch w cfg kind j =
     (if kind = ''image'' then process_image w j
      else if kind = ''video'' then process_video w cfg j
      else if kind = ''text'' then process_text w j
      else raise_exc (Raised ValueError (UnsupportedInputType kind)))"

text \<open>The body of the \<open>try\<close> statement of \<open>process_job\<close>, lines 517 to 538.\<close>

definition attempt_job :: "world \<Rightarrow> config \<Rightarrow> string \<Rightarrow> string \<Rightarrow> job \<Rightarrow> unit action" where
  "attempt_job w cfg ident kind j =
     and_next (update_analysis_status w ident ''processing'') (\<lambda>_.
     and_next (perform (dispatch w cfg kind j)) (\<lambda>res.
     and_next (store_results w ident res) (\<lambda>_.
       update_analysis_status w ident ''done'')))"

definition error_results :: "error \<Rightarrow> results" where
  "error_results e =
     \<lparr>credibility_score = None, explanation = ErrorExplanation (str e) ''failed'',
      artifacts = None, details = ErrorDetails (str e)\<rparr>"

text \<open>The \<open>except Exception\<close> clause of \<open>process_job\<close>, lines 540 to 553.\<close>

definition handle_failure :: "world \<Rightarrow> string \<Rightarrow> error \<Rightarrow> unit action" where
  "handle_failure w ident e =
     and_next (update_analysis_status w ident ''failed'') (\<lambda>_.
       store_results w ident (error_results e))"

definition process_job :: "world \<Rightarrow> config \<Rightarrow> job \<Rightarrow> unit action" where
  "process_job w cfg j st =
     (case analysis_id j of
        None \<Rightarrow> (st, Inl (key_error ''analysis_id''))
      | Some ident \<Rightarrow>
          (case input_type j of
             None \<Rightarrow> (st, Inl (key_error ''input_type''))
           | Some kind \<Rightarrow>
               (case attempt_job w cfg ident kind j st of
                  (st', Inr u) \<Rightarrow> (st', Inr u)
                | (st', Inl e) \<Rightarrow> handle_failure w ident e st')))"

text \<open>
  One round of the loop of \<open>start\<close> begins with \<open>blpop\<close>, which returns nothing
  after its timeout, returns a payload, raises an exception, or is interrupted from
  the keyboard.
\<close>

datatype poll = Timeout | Item string | PollFailure error | Interrupt

definition log_worker_error :: "error \<Rightarrow> wstate \<Rightarrow> wstate" where
  "log_worker_error e st = st\<lparr>events := events st @ [WorkerError e]\<rparr>"

text \<open>Lines 484 to 501 for one round that is not interrupted.\<close>

definition loop_round :: "world \<Rightarrow> config \<Rightarrow> poll \<Rightarrow> wstate \<Rightarrow> wstate" where
  "loop_round w cfg p st =
     (case p of
        Timeout \<Rightarrow> st
      | PollFailure e \<Rightarrow> log_worker_error e st
      | Interrupt \<Rightarrow> st
      | Item payload \<Rightarrow>
          (case json_loads w payload of
             Inl e \<Rightarrow> log_worker_error e st
           | Inr j \<Rightarrow>
               (case process_job w cfg j st of
                  (st', Inl e) \<Rightarrow> log_worker_error e st'
                | (st', Inr _) \<Rightarrow> st')))"

text \<open>
  The loop of \<open>start\<close> over the outcomes of its successive \<open>blpop\<close> calls. The loop
  has no exit but the interrupt; on a finite list of outcomes the function yields the
  state reached and the outcomes it has not consumed, which are none unless the loop
  was left.
\<close>

fun start :: "world \<Rightarrow> config \<Rightarrow> poll list \<Rightarrow> wstate \<Rightarrow> wstate \<times> poll list" where
  "start w cfg [] st = (st, [])"
| "start w cfg (Interrupt # ps) st = (st\<lparr>events := events st @ [ShuttingDown]\<rparr>, ps)"
| "start w cfg (p # ps) st = start w cfg ps (loop_round w cfg p st)"

text \<open>The statuses written by the \<open>UPDATE\<close> statements among some events, for one job.\<close>

fun status_writes :: "nat \<Rightarrow> event list \<Rightarrow> string list" where
  "status_writes u [] = []"
| "status_writes u (UpdateStatus u' status finished_at # evs) =
     (if u' = u then status # status_writes u evs else status_writes u evs)"
| "status_writes u (ev # evs) = status_writes u evs"

subsection \<open>Properties stated of the worker, and example inputs\<close>

text \<open>
  An output \<open>(score, explanation)\<close> of a scoring function is scored from a base when
  the score lies in the unit interval and is the clamped base less the weights of the
  listed factors, each of which has a positive weight.
\<close>

definition scored :: "real \<Rightarrow> real \<times> explanation \<Rightarrow> bool" where
  "scored base out =
     (0 \<le> fst out \<and> fst out \<le> 1 \<and>
      (\<exists>fs. primary_factors (snd out) = Some fs \<and> list_all (\<lambda>f. 0 < weight f) fs \<and>
            fst out = clamp (base - sum_list (map weight fs))))"

text \<open>What one call of \<open>process_job\<close> adds to the record of events.\<close>

definition job_events :: "world \<Rightarrow> config \<Rightarrow> job \<Rightarrow> wstate \<Rightarrow> event list" where
  "job_events w cfg j st = drop (length (events st)) (events (fst (process_job w cfg j st)))"

definition face_of :: "real \<Rightarrow> likelihood \<Rightarrow> face" where
  "face_of confidence blurred =
     \<lparr>detection_confidence = confidence, joy_likelihood = name UNLIKELY,
      anger_likelihood = name UNLIKELY, surprise_likelihood = name UNLIKELY,
      under_exposed_likelihood = name UNLIKELY, blurred_likelihood = name blurred,
      headwear_likelihood = name UNLIKELY\<rparr>"

definition vision_of :: "face list \<Rightarrow> likelihood \<Rightarrow> string list \<Rightarrow> vision_results" where
  "vision_of fs spoofed descriptions =
     \<lparr>vr_labels = map (\<lambda>d. \<lparr>description = d, label_score = 0.9\<rparr>) descriptions,
      vr_faces = fs, vr_text = [],
      vr_safe_search = \<lparr>adult = name UNLIKELY, spoof = name spoofed, medical = name UNLIKELY,
                         violence = name UNLIKELY, racy = name UNLIKELY\<rparr>,
      vr_objects = []\<rparr>"

definition info_of :: "int \<Rightarrow> int \<Rightarrow> image_info" where
  "info_of wd ht = \<lparr>ii_width = wd, ii_height = ht, ii_format = ''JPEG'', ii_mode = ''RGB''\<rparr>"

definition stats_of :: "nat \<Rightarrow> nat \<Rightarrow> text_stats" where
  "stats_of words sentences =
     \<lparr>char_count = 0, word_count = words, sentence_count = sentences, paragraph_count = 0\<rparr>"

definition video_of :: "real \<Rightarrow> int \<Rightarrow> video_info" where
  "video_of seconds wd =
     \<lparr>duration = seconds, vi_size = 1000, vi_width = wd, vi_height = 720, fps = 25, codec = ''h264''\<rparr>"

text \<open>
  A world in which every external call succeeds, a job, a configuration and a state
  with the job's row, for evaluating the worker on concrete inputs.
\<close>

definition probe_of :: "real field \<Rightarrow> probe_output" where
  "probe_of seconds =
     \<lparr>streams = Some [\<lparr>codec_type = Some ''audio'', st_width = Missing, st_height = Missing,
                         r_frame_rate = Missing, codec_name = Some ''aac''\<rparr>,
                       \<lparr>codec_type = Some ''video'', st_width = Value 1280, st_height = Value 720,
                         r_frame_rate = Value 25, codec_name = Some ''h264''\<rparr>],
      pr_format = Some \<lparr>pf_duration = seconds, pf_size = Value 1000\<rparr>\<rparr>"

definition example_job :: "string \<Rightarrow> job" where
  "example_job kind = \<lparr>analysis_id = Some ''7'', input_type = Some kind, input_uri = Some ''clip''\<rparr>"

definition example_world :: world where
  "example_world =
     \<lparr>download_file = (\<lambda>uri. Inr (''/tmp/'' @ uri)),
      open_image = (\<lambda>p. Inr (info_of 800 600)),
      annotate_image = (\<lambda>p. Inr (vision_of [] UNLIKELY [])),
      annotate_frame = (\<lambda>p. Inr ([], [])),
      ffprobe = (\<lambda>p. Inr (probe_of (Value 12))),
      ffmpeg_frames = (\<lambda>p. Inr [''frame_0001.jpg'', ''frame_0002.jpg'']),
      ffmpeg_audio = (\<lambda>p. Inr ()),
      audio_present = (\<lambda>p. False),
      recognize = (\<lambda>p. Inr []),
      read_text = (\<lambda>p. Inr ''one two three four five six.''),
      json_loads = (\<lambda>payload. Inr (example_job payload)),
      uuid_of = (\<lambda>s. if s = ''7'' then Some 7 else None),
      uuid4 = (\<lambda>n. 100 + n),
      utcnow = (\<lambda>n. 1000 + n)\<rparr>"

definition example_config :: config where
  "example_config = \<lparr>max_video_duration = 300, frame_sample_rate = 1\<rparr>"

definition example_state :: wstate where
  "example_state =
     \<lparr>db = \<lparr>analyses = [7 \<mapsto> \<lparr>a_user_id = 1, a_input_type = ''video'', a_input_uri = ''clip'',
                                a_status = ''queued'', a_created_at = 999, a_finished_at = None\<rparr>],
             analysis_reports = []\<rparr>,
      events = [], clock_reads = 0, uuids_drawn = 0\<rparr>"

text \<open>
  The condition under which each scoring function subtracts a penalty and appends the
  factor, read off the \<open>if\<close> statements of lines 346 to 370, 390 to 415 and 434 to 455.
\<close>

definition image_triggered :: "vision_results \<Rightarrow> factor \<Rightarrow> bool" where
  "image_triggered vr f =
     ((f = LowFaceConfidence \<and> vr_faces vr \<noteq> [] \<and>
        sum_list (map detection_confidence (vr_faces vr)) / real (length (vr_faces vr)) < 0.7) \<or>
      (f = BlurredFaces (length (filter (\<lambda>x. contains ''LIKELY'' (blurred_likelihood x)) (vr_faces vr))) \<and>
        (\<exists>x \<in> set (vr_faces vr). contains ''LIKELY'' (blurred_likelihood x))) \<or>
      (f = Spoofing \<and>
        (spoof (vr_safe_search vr) = ''LIKELY'' \<or> spoof (vr_safe_search vr) = ''VERY_LIKELY'')) \<or>
      (f = ArtificialContent (map description (artificial_labels (vr_labels vr))) \<and>
        (\<exists>l \<in> set (vr_labels vr). \<exists>t \<in> set artificial_terms. contains t (lower (description l)))))"

definition video_triggered :: "frame_result list \<Rightarrow> string \<Rightarrow> video_info \<Rightarrow> factor \<Rightarrow> bool" where
  "video_triggered frs t info f =
     ((f = InconsistentFaces \<and> frs \<noteq> [] \<and>
        int (list_max (map (\<lambda>frame. length (fr_faces frame)) frs)) -
        int (list_min (map (\<lambda>frame. length (fr_faces frame)) frs)) > 2) \<or>
      (f = LowAverageFaceConfidence \<and> concat (map fr_faces frs) \<noteq> [] \<and>
        sum_list (map detection_confidence (concat (map fr_faces frs))) /
          real (length (concat (map fr_faces frs))) < 0.6) \<or>
      (f = AISpeech \<and> t \<noteq> [] \<and> (\<exists>phrase \<in> set ai_phrases. contains phrase (lower t))) \<or>
      (f = LowResolution \<and> vi_width info < 720))"

definition text_triggered :: "string \<Rightarrow> text_stats \<Rightarrow> string list \<Rightarrow> factor \<Rightarrow> bool" where
  "text_triggered text stats pats f =
     ((f = AIPatterns pats \<and> pats \<noteq> []) \<or>
      (f = LongSentences \<and> word_count stats > 0 \<and>
        real (word_count stats) / real (max 1 (sentence_count stats)) > 30) \<or>
      (f = ShortSentences \<and> word_count stats > 0 \<and>
        real (word_count stats) / real (max 1 (sentence_count stats)) < 5) \<or>
      (f = HighRepetition \<and> length (split (lower text)) > 10 \<and>
        real (card (set (split (lower text)))) / real (length (split (lower text))) < 0.3))"

text \<open>
  An output lists exactly the triggered factors when its \<open>primary_factors\<close> has no
  entry twice and a factor is an entry if and only if its rule is triggered.
\<close>

definition lists_exactly :: "(factor \<Rightarrow> bool) \<Rightarrow> real \<times> explanation \<Rightarrow> bool" where
  "lists_exactly triggered out =
     (\<exists>fs. primary_factors (snd out) = Some fs \<and> distinct fs \<and>
           (\<forall>f. (f \<in> set fs) = triggered f))"

text \<open>
  The exceptions that leave the pipeline of a job, one rule for each place that raises
  and is not inside a \<open>try\<close> statement of the media processor that catches the class:
  the type dispatch, the lookup of \<open>input_uri\<close>, the download, opening the image, the
  vision call on the image, reading the text, the probe outside the classes of line
  264, the duration check, frame and audio extraction outside \<open>CalledProcessError\<close>,
  and the vision call on a sampled frame. Transcription has no rule: line 313 catches
  every exception.
\<close>

definition media_kinds :: "string list" where
  "media_kinds = [''image'', ''video'', ''text'']"

inductive escapes :: "world \<Rightarrow> config \<Rightarrow> string \<Rightarrow> job \<Rightarrow> error \<Rightarrow> bool"
  for w :: world and cfg :: config
where
  unsupported:
    "kind \<notin> set media_kinds \<Longrightarrow>
     escapes w cfg kind j (Raised ValueError (UnsupportedInputType kind))"
| no_uri:
    "kind \<in> set media_kinds \<Longrightarrow> input_uri j = None \<Longrightarrow>
     escapes w cfg kind j (key_error ''input_uri'')"
| download:
    "kind \<in> set media_kinds \<Longrightarrow> input_uri j = Some uri \<Longrightarrow> download_file w uri = Inl e \<Longrightarrow>
     escapes w cfg kind j e"
| open_image:
    "input_uri j = Some uri \<Longrightarrow> download_file w uri = Inr p \<Longrightarrow> open_image w p = Inl e \<Longrightarrow>
     escapes w cfg ''image'' j e"
| annotate_image:
    "input_uri j = Some uri \<Longrightarrow> download_file w uri = Inr p \<Longrightarrow> open_image w p = Inr info \<Longrightarrow>
     annotate_image w p = Inl e \<Longrightarrow>
     escapes w cfg ''image'' j e"
| read_text:
    "input_uri j = Some uri \<Longrightarrow> download_file w uri = Inr p \<Longrightarrow> read_text w p = Inl e \<Longrightarrow>
     escapes w cfg ''text'' j e"
| probe:
    "input_uri j = Some uri \<Longrightarrow> download_file w uri = Inr p \<Longrightarrow>
     snd (probe_video w p) = Inl e \<Longrightarrow>
     exc_class_of e \<notin> set [CalledProcessError, JSONDecodeError, KeyError] \<Longrightarrow>
     escapes w cfg ''video'' j e"
| too_long:
    "input_uri j = Some uri \<Longrightarrow> download_file w uri = Inr p \<Longrightarrow>
     snd (get_video_info w p) = Inr info \<Longrightarrow>
     duration info > real_of_int (max_video_duration cfg) \<Longrightarrow>
     escapes w cfg ''video'' j (too_long info cfg)"
| frames:
    "input_uri j = Some uri \<Longrightarrow> download_file w uri = Inr p \<Longrightarrow>
     snd (get_video_info w p) = Inr info \<Longrightarrow>
     duration info \<le> real_of_int (max_video_duration cfg) \<Longrightarrow>
     ffmpeg_frames w p = Inl e \<Longrightarrow> exc_class_of e \<noteq> CalledProcessError \<Longrightarrow>
     escapes w cfg ''video'' j e"
| audio:
    "input_uri j = Some uri \<Longrightarrow> download_file w uri = Inr p \<Longrightarrow>
     snd (get_video_info w p) = Inr info \<Longrightarrow>
     duration info \<le> real_of_int (max_video_duration cfg) \<Longrightarrow>
     snd (extract_frames w p) = Inr frame_paths \<Longrightarrow>
     ffmpeg_audio w p = Inl e \<Longrightarrow> exc_class_of e \<noteq> CalledProcessError \<Longrightarrow>
     escapes w cfg ''video'' j e"
| annotate_frame:
    "input_uri j = Some uri \<Longrightarrow> download_file w uri = Inr p \<Longrightarrow>
     snd (get_video_info w p) = Inr info \<Longrightarrow>
     duration info \<le> real_of_int (max_video_duration cfg) \<Longrightarrow>
     snd (extract_frames w p) = Inr frame_paths \<Longrightarrow>
     snd (extract_audio w p) = Inr () \<Longrightarrow>
     snd (analyze_frames w (sample_frames frame_paths)) = Inl e \<Longrightarrow>
     escapes w cfg ''video'' j e"

code_pred escapes .




text \<open>The events that are calls of the media processor out of the process.\<close>

fun external_call :: "event \<Rightarrow> bool" where
  "external_call (UpdateStatus u s f) = False"
| "external_call (StoreReport u) = False"
| "external_call (WorkerError e) = False"
| "external_call ShuttingDown = False"
| "external_call ev = True"

text \<open>The row that \<open>_store_results\<close> offers to the table, and the rows of one analysis.\<close>

definition stored_row :: "world \<Rightarrow> nat \<Rightarrow> results \<Rightarrow> wstate \<Rightarrow> report_row" where
  "stored_row w u res st =
     \<lparr>r_id = uuid4 w (uuids_drawn st), r_analysis_id = u,
      r_credibility_score = credibility_score res,
      r_explanation = explanation res,
      r_artifacts = (case artifacts res of None \<Rightarrow> [] | Some a \<Rightarrow> a),
      r_version = ''v1.0'',
      r_created_at = utcnow w (clock_reads st)\<rparr>"

definition reports_of :: "nat \<Rightarrow> wstate \<Rightarrow> report_row list" where
  "reports_of u st = filter (\<lambda>r. r_analysis_id r = u) (analysis_reports (db st))"

text \<open>
  Worlds that differ from the example in one call: ffprobe reports 301 seconds, ffprobe
  exits with an error, ffprobe reports a duration that \<open>float\<close> rejects, ffprobe is
  not installed, the speech service fails on a video with an audio track, and the
  download fails.
\<close>

definition results_of :: "real \<Rightarrow> results" where
  "results_of score =
     \<lparr>credibility_score = Some score, explanation = ImageExplanation [] 0 0 ''medium'',
      artifacts = None, details = ImageDetails (vision_of [] UNLIKELY []) (info_of 800 600)\<rparr>"

definition long_video_world :: world where
  "long_video_world = example_world\<lparr>ffprobe := (\<lambda>p. Inr (probe_of (Value 301)))\<rparr>"

definition failed_probe_world :: world where
  "failed_probe_world =
     example_world\<lparr>ffprobe := (\<lambda>p. Inl (Raised CalledProcessError (Text ''exit status 1'')))\<rparr>"

definition bad_duration_world :: world where
  "bad_duration_world =
     example_world\<lparr>ffprobe := (\<lambda>p. Inr (probe_of (Bad (Raised ValueError
        (Text ''could not convert string to float'')))))\<rparr>"

definition no_ffprobe_world :: world where
  "no_ffprobe_world =
     example_world\<lparr>ffprobe := (\<lambda>p. Inl (Raised OtherException
        (Text ''No such file or directory: ffprobe'')))\<rparr>"

definition speech_down_world :: world where
  "speech_down_world =
     example_world\<lparr>audio_present := (\<lambda>p. True),
       recognize := (\<lambda>p. Inl (Raised OtherException (Text ''503 service unavailable'')))\<rparr>"

definition no_storage_world :: world where
  "no_storage_world =
     example_world\<lparr>download_file := (\<lambda>uri. Inl (Raised OtherException (Text ''404 not found'')))\<rparr>"

section \<open>Scoring\<close>

lemma accounted_start: "accounted b (b, [])"
  by (simp add: accounted_def)

lemma accounted_penalise:
  "accounted b st \<Longrightarrow> (c \<Longrightarrow> p = weight f \<and> 0 < p) \<Longrightarrow> accounted b (penalise c p f st)"
  by (auto simp: accounted_def penalise_def)

lemma accounted_if:
  "accounted b x \<Longrightarrow> accounted b y \<Longrightarrow> accounted b (if c then x else y)"
  by simp

lemma accounted_image: "accounted 0.8 (image_rules vr)"
  unfolding image_rules_def Let_def
  by (intro accounted_penalise accounted_if accounted_start) simp_all

lemma accounted_video: "accounted 0.75 (video_rules frs t i)"
  unfolding video_rules_def Let_def
  by (intro accounted_penalise accounted_if accounted_start) simp_all

lemma accounted_text: "accounted 0.9 (text_rules t s ps)"
  unfolding text_rules_def Let_def
  by (intro accounted_penalise accounted_if accounted_start) simp_all

lemma clamp_bounds: "0 \<le> clamp s \<and> clamp s \<le> 1"
  by (simp add: clamp_def)

lemma image_score: "fst (calculate_image_credibility vr info) = clamp (fst (image_rules vr))"
  by (simp add: calculate_image_credibility_def split: prod.split)

lemma image_factors:
  "primary_factors (snd (calculate_image_credibility vr info)) = Some (snd (image_rules vr))"
  by (simp add: calculate_image_credibility_def split: prod.split)

lemma video_score: "fst (calculate_video_credibility frs t i) = clamp (fst (video_rules frs t i))"
  by (simp add: calculate_video_credibility_def split: prod.split)

lemma video_factors:
  "primary_factors (snd (calculate_video_credibility frs t i)) = Some (snd (video_rules frs t i))"
  by (simp add: calculate_video_credibility_def split: prod.split)

lemma text_score: "fst (calculate_text_credibility t s ps) = clamp (fst (text_rules t s ps))"
  by (simp add: calculate_text_credibility_def split: prod.split)

lemma text_factors:
  "primary_factors (snd (calculate_text_credibility t s ps)) = Some (snd (text_rules t s ps))"
  by (simp add: calculate_text_credibility_def split: prod.split)

lemma scored_intro:
  "accounted base st \<Longrightarrow> fst out = clamp (fst st) \<Longrightarrow> primary_factors (snd out) = Some (snd st)
   \<Longrightarrow> scored base out"
  by (simp add: scored_def accounted_def clamp_bounds)

lemma image_factor_iff: "f \<in> set (snd (image_rules vr)) \<longleftrightarrow> image_triggered vr f"
  unfolding image_triggered_def
  by (auto simp add: image_rules_def penalise_def Let_def artificial_labels_def filter_empty_conv)

lemma image_factors_distinct: "distinct (snd (image_rules vr))"
  by (simp add: image_rules_def penalise_def Let_def)

lemma video_factor_iff:
  "f \<in> set (snd (video_rules frs t info)) \<longleftrightarrow> video_triggered frs t info f"
  unfolding video_triggered_def
  by (cases frs) (auto simp add: video_rules_def penalise_def Let_def)

lemma video_factors_distinct: "distinct (snd (video_rules frs t info))"
  by (simp add: video_rules_def penalise_def Let_def)

lemma text_factor_iff:
  "f \<in> set (snd (text_rules text stats pats)) \<longleftrightarrow> text_triggered text stats pats f"
  unfolding text_triggered_def
  by (auto simp add: text_rules_def penalise_def Let_def)

lemma text_factors_distinct: "distinct (snd (text_rules text stats pats))"
  by (simp add: text_rules_def penalise_def Let_def)

lemma lists_exactly_intro:
  "primary_factors (snd out) = Some fs \<Longrightarrow> distinct fs \<Longrightarrow> (\<And>f. (f \<in> set fs) = triggered f)
   \<Longrightarrow> lists_exactly triggered out"
  by (auto simp add: lists_exactly_def)

text \<open>
  C1. Each of the three scoring functions returns a score between 0 and 1, and its
  \<open>primary_factors\<close> lists a factor if and only if the rule of that factor is triggered
  for the input, each once; the score is the clamped base less the weights of the
  listed factors, all positive, so that exactly the penalties of the listed factors
  are subtracted.
\<close>

theorem scores_bounded_factors_subtracted:
  "scored 0.8 (calculate_image_credibility vr info) \<and>
   lists_exactly (image_triggered vr) (calculate_image_credibility vr info) \<and>
   scored 0.75 (calculate_video_credibility frame_results transcript vinfo) \<and>
   lists_exactly (video_triggered frame_results transcript vinfo)
     (calculate_video_credibility frame_results transcript vinfo) \<and>
   scored 0.9 (calculate_text_credibility text stats pats) \<and>
   lists_exactly (text_triggered text stats pats) (calculate_text_credibility text stats pats)"
  by (intro conjI scored_intro[OF accounted_image image_score image_factors]
        scored_intro[OF accounted_video video_score video_factors]
        scored_intro[OF accounted_text text_score text_factors]
        lists_exactly_intro[OF image_factors image_factors_distinct image_factor_iff]
        lists_exactly_intro[OF video_factors video_factors_distinct video_factor_iff]
        lists_exactly_intro[OF text_factors text_factors_distinct text_factor_iff])

theorem scores_bounded_factors_subtracted_witness:
  "calculate_image_credibility (vision_of [face_of 0.5 POSSIBLE] LIKELY []) (info_of 800 600)
     = (0.1, ImageExplanation [LowFaceConfidence, Spoofing] 1 0 ''medium'') \<and>
   scored 0.8 (calculate_image_credibility (vision_of [face_of 0.5 POSSIBLE] LIKELY []) (info_of 800 600)) \<and>
   lists_exactly (image_triggered (vision_of [face_of 0.5 POSSIBLE] LIKELY []))
     (calculate_image_credibility (vision_of [face_of 0.5 POSSIBLE] LIKELY []) (info_of 800 600)) \<and>
   calculate_video_credibility [] ''as an AI I cannot'' (video_of 12 640)
     = (0.25, VideoExplanation [AISpeech, LowResolution] 0 5 12) \<and>
   scored 0.75 (calculate_video_credibility [] ''as an AI I cannot'' (video_of 12 640)) \<and>
   lists_exactly (video_triggered [] ''as an AI I cannot'' (video_of 12 640))
     (calculate_video_credibility [] ''as an AI I cannot'' (video_of 12 640)) \<and>
   calculate_text_credibility ''one two. three'' (stats_of 3 2) [''as an ai'']
     = (0.6, TextExplanation [AIPatterns [''as an ai''], ShortSentences] 3 1 ''suspicious'') \<and>
   scored 0.9 (calculate_text_credibility ''one two. three'' (stats_of 3 2) [''as an ai'']) \<and>
   lists_exactly (text_triggered ''one two. three'' (stats_of 3 2) [''as an ai''])
     (calculate_text_credibility ''one two. three'' (stats_of 3 2) [''as an ai''])"
proof -
  note th = scores_bounded_factors_subtracted
    [of "vision_of [face_of 0.5 POSSIBLE] LIKELY []" "info_of 800 600" "[]" "''as an AI I cannot''"
        "video_of 12 640" "''one two. three''" "stats_of 3 2" "[''as an ai'']"]
  have "calculate_image_credibility (vision_of [face_of 0.5 POSSIBLE] LIKELY []) (info_of 800 600)
     = (0.1, ImageExplanation [LowFaceConfidence, Spoofing] 1 0 ''medium'')"
    by (simp add: calculate_image_credibility_def image_rules_def vision_of_def face_of_def
         info_of_def penalise_def artificial_labels_def clamp_def)
  moreover have "calculate_video_credibility [] ''as an AI I cannot'' (video_of 12 640)
     = (0.25, VideoExplanation [AISpeech, LowResolution] 0 5 12)"
    by (simp add: penalise_def clamp_def calculate_video_credibility_def
         video_rules_def video_of_def ai_phrases_def lower_def lower_char_def split_def is_space_def)
  moreover have "calculate_text_credibility ''one two. three'' (stats_of 3 2) [''as an ai'']
     = (0.6, TextExplanation [AIPatterns [''as an ai''], ShortSentences] 3 1 ''suspicious'')"
    by (simp add: penalise_def clamp_def lower_def lower_char_def split_def is_space_def
         calculate_text_credibility_def text_rules_def stats_of_def)
  ultimately show ?thesis using th by blast
qed

text \<open>
  C4. A face whose blurred likelihood is \<open>VERY_UNLIKELY\<close> is counted as blurred and
  costs 0.20: the test of line 353 looks for the text \<open>LIKELY\<close> inside the name.
\<close>

theorem blur_penalty_on_very_unlikely:
  "calculate_image_credibility (vision_of [face_of 0.9 VERY_UNLIKELY] UNLIKELY []) (info_of 800 600)
     = (0.6, ImageExplanation [BlurredFaces 1] 1 0 ''medium'')"
  by (simp add: calculate_image_credibility_def image_rules_def vision_of_def face_of_def
       info_of_def penalise_def artificial_labels_def clamp_def)

text \<open>
  C5, as amended. The raw text score is 0.90 less the pattern penalty, less 0.10 if and
  only if the word count is positive and the average sentence length is above 30 or
  below 5, less the repetition penalty; one of the two sentence-length factors is
  listed under exactly that condition.
\<close>

theorem sentence_penalty_iff:
  "fst (text_rules text stats pats) =
     0.9 - (if pats \<noteq> [] then min 0.6 (real (length pats) * 0.2) else 0)
         - (if word_count stats > 0 \<and>
               (real (word_count stats) / real (max 1 (sentence_count stats)) > 30 \<or>
                real (word_count stats) / real (max 1 (sentence_count stats)) < 5) then 0.1 else 0)
         - (if length (split (lower text)) > 10 \<and>
               real (card (set (split (lower text)))) / real (length (split (lower text))) < 0.3
            then 0.2 else 0) \<and>
   ((LongSentences \<in> set (snd (text_rules text stats pats)) \<or>
     ShortSentences \<in> set (snd (text_rules text stats pats))) \<longleftrightarrow>
    (word_count stats > 0 \<and>
       (real (word_count stats) / real (max 1 (sentence_count stats)) > 30 \<or>
        real (word_count stats) / real (max 1 (sentence_count stats)) < 5)))"
  by (simp add: text_rules_def penalise_def Let_def)

theorem sentence_penalty_iff_witness:
  "fst (text_rules ''one two. three'' (stats_of 3 2) []) = 0.8 \<and>
   (LongSentences \<in> set (snd (text_rules ''one two. three'' (stats_of 3 2) [])) \<or>
    ShortSentences \<in> set (snd (text_rules ''one two. three'' (stats_of 3 2) [])))"
  using sentence_penalty_iff [of "''one two. three''" "stats_of 3 2" "[]"]
  by (simp add: stats_of_def split_def lower_def lower_char_def is_space_def)

text \<open>
  C5, as stated, fails on a text without words: its average sentence length is 0,
  below 5, and nothing is subtracted.
\<close>

theorem sentence_penalty_counterexample:
  "real (word_count (stats_of 0 0)) / real (max 1 (sentence_count (stats_of 0 0))) < 5 \<and>
   text_rules [] (stats_of 0 0) [] = (0.9, [])"
  by (simp add: text_rules_def stats_of_def penalise_def split_def lower_def)

text \<open>
  C10. Without faces neither face penalty is applied; if also the spoof likelihood is
  neither \<open>LIKELY\<close> nor \<open>VERY_LIKELY\<close> and no label description contains an
  artificial-content term, the score is the base 0.80 and no factor is listed.
\<close>

theorem image_without_faces:
  assumes "vr_faces vr = []"
  shows "LowFaceConfidence \<notin> set (snd (image_rules vr)) \<and>
         (\<forall>n. BlurredFaces n \<notin> set (snd (image_rules vr))) \<and>
         (spoof (vr_safe_search vr) \<notin> {''LIKELY'', ''VERY_LIKELY''} \<and>
          (\<forall>l \<in> set (vr_labels vr). \<forall>t \<in> set artificial_terms. \<not> contains t (lower (description l)))
          \<longrightarrow> fst (calculate_image_credibility vr info) = 0.8 \<and>
              primary_factors (snd (calculate_image_credibility vr info)) = Some [])"
  using assms
  by (auto simp: calculate_image_credibility_def image_rules_def penalise_def Let_def clamp_def
        artificial_labels_def filter_empty_conv)

theorem image_without_faces_witness:
  "vr_faces (vision_of [] POSSIBLE [''Sky'', ''Tree'']) = [] \<and>
   spoof (vr_safe_search (vision_of [] POSSIBLE [''Sky'', ''Tree''])) \<notin> {''LIKELY'', ''VERY_LIKELY''} \<and>
   \<not> (\<exists>l \<in> set (vr_labels (vision_of [] POSSIBLE [''Sky'', ''Tree''])).
        \<exists>t \<in> set artificial_terms. contains t (lower (description l))) \<and>
   fst (calculate_image_credibility (vision_of [] POSSIBLE [''Sky'', ''Tree'']) (info_of 800 600)) = 0.8 \<and>
   primary_factors (snd (calculate_image_credibility (vision_of [] POSSIBLE [''Sky'', ''Tree''])
      (info_of 800 600))) = Some []"
  using image_without_faces [of "vision_of [] POSSIBLE [''Sky'', ''Tree'']" "info_of 800 600"]
  by (simp add: vision_of_def artificial_terms_def lower_def lower_char_def)

section \<open>Frame sampling\<close>

lemma slice_step_length:
  "1 \<le> k \<Longrightarrow> length (slice_step k xs) = (length xs + k - 1) div k"
proof (induction k xs rule: slice_step.induct)
  case (1 k)
  then show ?case by simp
next
  case (2 k x xs)
  show ?case
  proof (cases "length xs < k - 1")
    case True
    with 2 show ?thesis by simp
  next
    case False
    then have "length xs + k = (length xs - (k - 1) + k - 1) + 1 * k" using 2(2) by simp
    then have "(length xs + k) div k = (length xs - (k - 1) + k - 1) div k + 1"
      using 2(2) by (metis div_mult_self1 add.commute not_one_le_zero)
    with 2 show ?thesis by simp
  qed
qed

lemma slice_step_nth:
  "1 \<le> k \<Longrightarrow> i < length (slice_step k xs) \<Longrightarrow> slice_step k xs ! i = xs ! (i * k)"
proof (induction k xs arbitrary: i rule: slice_step.induct)
  case (1 k)
  then show ?case by simp
next
  case (2 k x xs)
  show ?case
  proof (cases i)
    case 0
    then show ?thesis by simp
  next
    case (Suc n)
    with 2 have n: "n < length (slice_step k (drop (k - 1) xs))" by simp
    have "slice_step k (drop (k - 1) xs) ! n = drop (k - 1) xs ! (n * k)"
      using 2(1)[OF 2(2) n] .
    moreover have "n * k < length (drop (k - 1) xs)"
    proof -
      define ys where "ys = drop (k - 1) xs"
      have "n < length (slice_step k ys)" using n by (simp add: ys_def)
      then have "Suc n \<le> (length ys + k - 1) div k"
        using slice_step_length[OF 2(2), of ys] by simp
      then have "Suc n * k \<le> length ys + k - 1"
        using 2(2) by (simp add: less_eq_div_iff_mult_less_eq)
      then have "n * k < length ys" using 2(2) by simp
      then show ?thesis by (simp only: ys_def)
    qed
    ultimately have "slice_step k (drop (k - 1) xs) ! n = xs ! (k - 1 + n * k)"
      by simp
    with Suc 2(2) show ?thesis by (simp add: add.commute)
  qed
qed

text \<open>
  The sampled frames are those at the indices 0, k, 2k, ... for the stride
  \<open>k = max 1 (n div 10)\<close>, in order, and there are \<open>\<lceil>n / k\<rceil>\<close> of them; for 100
  frames that is 10.
\<close>

lemma sample_frames_nth:
  "i < length (sample_frames xs) \<Longrightarrow>
   sample_frames xs ! i = xs ! (i * max 1 (length xs div 10))"
  by (simp add: sample_frames_def slice_step_nth)

lemma sample_frames_length:
  "length (sample_frames xs) =
     (length xs + max 1 (length xs div 10) - 1) div max 1 (length xs div 10)"
  by (simp add: sample_frames_def slice_step_length)

lemma sample_frames_hundred: "length xs = 100 \<Longrightarrow> length (sample_frames xs) = 10"
  by (simp add: sample_frames_def slice_step_length)

text \<open>
  C2. Nineteen extracted frames give the stride \<open>max 1 (19 div 10) = 1\<close>, so all
  nineteen are analysed, more than the ten the comment of line 142 promises.
\<close>

theorem nineteen_frames_all_sampled:
  "sample_frames [0..<19] = [0..<19] \<and> length (sample_frames [0..<19]) = 19"
  by (simp add: sample_frames_def upt_rec)

section \<open>The video pipeline and the worker\<close>

lemma then_run_raises: "snd m = Inl e \<Longrightarrow> then_run m f = (fst m, Inl e)"
  by (simp add: then_run_def)

lemma then_run_returns: "snd m = Inr x \<Longrightarrow> then_run m f = (fst m @ fst (f x), snd (f x))"
  by (simp add: then_run_def)

lemma get_video_info_events: "fst (get_video_info w p) = [Probe p]"
  by (simp add: get_video_info_def probe_video_def except_return_def then_run_def call_def split: sum.split)

lemma process_video_too_long:
  assumes "input_uri j = Some uri" and "download_file w uri = Inr p"
    and "snd (get_video_info w p) = Inr info"
    and "duration info > real_of_int (max_video_duration cfg)"
  shows "process_video w cfg j = ([Download uri, Probe p], Inl (too_long info cfg))"
  using assms get_video_info_events[of w p]
  by (simp add: process_video_def get_input_uri_def then_run_def ret_def call_def raise_exc_def)

lemma update_status_valid:
  "uuid_of w ident = Some u \<Longrightarrow>
   update_analysis_status w ident ''processing'' st =
     (st\<lparr>db := update_analyses ''processing'' None u (db st),
         events := events st @ [UpdateStatus u ''processing'' None]\<rparr>, Inr ())"
  by (simp add: update_analysis_status_def)

lemma update_status_terminal:
  "uuid_of w ident = Some u \<Longrightarrow> status = ''done'' \<or> status = ''failed'' \<Longrightarrow>
   update_analysis_status w ident status st =
     (st\<lparr>clock_reads := clock_reads st + 1,
         db := update_analyses status (Some (utcnow w (clock_reads st))) u (db st),
         events := events st @ [UpdateStatus u status (Some (utcnow w (clock_reads st)))]\<rparr>, Inr ())"
  by (auto simp add: update_analysis_status_def Let_def)

lemma store_results_valid:
  "uuid_of w ident = Some u \<Longrightarrow>
   store_results w ident res st =
     (st\<lparr>uuids_drawn := uuids_drawn st + 1,
         db := (db st)\<lparr>analysis_reports := upsert_report
                  \<lparr>r_id = uuid4 w (uuids_drawn st), r_analysis_id = u,
                    r_credibility_score = credibility_score res,
                    r_explanation = explanation res,
                    r_artifacts = (case artifacts res of None \<Rightarrow> [] | Some a \<Rightarrow> a),
                    r_version = ''v1.0'',
                    r_created_at = utcnow w (clock_reads st)\<rparr> (analysis_reports (db st))\<rparr>,
         events := events st @ [StoreReport u],
         clock_reads := clock_reads st + 1\<rparr>, Inr ())"
  by (simp add: store_results_def)

lemma process_job_failure:
  assumes "analysis_id j = Some ident" and "input_type j = Some kind" and "uuid_of w ident = Some u"
    and "dispatch w cfg kind j = (tr, Inl e)"
  shows "process_job w cfg j st =
     (st\<lparr>db := \<lparr>analyses = analyses (update_analyses ''failed'' (Some (utcnow w (clock_reads st))) u
                           (update_analyses ''processing'' None u (db st))),
                 analysis_reports = upsert_report
                  \<lparr>r_id = uuid4 w (uuids_drawn st), r_analysis_id = u,
                    r_credibility_score = None,
                    r_explanation = ErrorExplanation (str e) ''failed'',
                    r_artifacts = [],
                    r_version = ''v1.0'',
                    r_created_at = utcnow w (clock_reads st + 1)\<rparr> (analysis_reports (db st))\<rparr>,
         events := events st @ [UpdateStatus u ''processing'' None] @ tr @
            [UpdateStatus u ''failed'' (Some (utcnow w (clock_reads st))), StoreReport u],
         clock_reads := clock_reads st + 2,
         uuids_drawn := uuids_drawn st + 1\<rparr>, Inr ())"
  using assms
  by (simp add: process_job_def attempt_job_def handle_failure_def and_next_def perform_def
        update_status_valid update_status_terminal store_results_valid error_results_def
        update_analyses_def split: option.split)

lemma process_job_success:
  assumes "analysis_id j = Some ident" and "input_type j = Some kind" and "uuid_of w ident = Some u"
    and "dispatch w cfg kind j = (tr, Inr res)"
  shows "process_job w cfg j st =
     (st\<lparr>db := \<lparr>analyses = analyses (update_analyses ''done'' (Some (utcnow w (clock_reads st + 1))) u
                           (update_analyses ''processing'' None u (db st))),
                 analysis_reports = upsert_report
                  \<lparr>r_id = uuid4 w (uuids_drawn st), r_analysis_id = u,
                    r_credibility_score = credibility_score res,
                    r_explanation = explanation res,
                    r_artifacts = (case artifacts res of None \<Rightarrow> [] | Some a \<Rightarrow> a),
                    r_version = ''v1.0'',
                    r_created_at = utcnow w (clock_reads st)\<rparr> (analysis_reports (db st))\<rparr>,
         events := events st @ [UpdateStatus u ''processing'' None] @ tr @
            [StoreReport u, UpdateStatus u ''done'' (Some (utcnow w (clock_reads st + 1)))],
         clock_reads := clock_reads st + 2,
         uuids_drawn := uuids_drawn st + 1\<rparr>, Inr ())"
  using assms
  by (simp add: process_job_def attempt_job_def handle_failure_def and_next_def perform_def
        update_status_valid update_status_terminal store_results_valid error_results_def
        update_analyses_def split: option.split)


lemma process_job_no_key:
  assumes "analysis_id j = None \<or> input_type j = None"
  shows "fst (process_job w cfg j st) = st"
  using assms
  by (auto simp add: process_job_def split: option.split)

lemmas probe_defs = get_video_info_def probe_video_def except_return_def then_run_def call_def
  read_video_info_def and_then_def probe_of_def

lemma update_analyses_lookup:
  "analyses (update_analyses status fin u d) u' =
     (if u' = u then map_option (\<lambda>row. row\<lparr>a_status := status, a_finished_at := fin\<rparr>) (analyses d u)
      else analyses d u')"
  by (simp add: update_analyses_def split: option.split)

lemma job_events_failure:
  assumes "analysis_id j = Some ident" and "input_type j = Some kind" and "uuid_of w ident = Some u"
    and "dispatch w cfg kind j = (tr, Inl e)"
  shows "job_events w cfg j st = [UpdateStatus u ''processing'' None] @ tr @
            [UpdateStatus u ''failed'' (Some (utcnow w (clock_reads st))), StoreReport u]"
  by (simp add: job_events_def process_job_failure[OF assms])

lemma job_events_success:
  assumes "analysis_id j = Some ident" and "input_type j = Some kind" and "uuid_of w ident = Some u"
    and "dispatch w cfg kind j = (tr, Inr res)"
  shows "job_events w cfg j st = [UpdateStatus u ''processing'' None] @ tr @
            [StoreReport u, UpdateStatus u ''done'' (Some (utcnow w (clock_reads st + 1)))]"
  by (simp add: job_events_def process_job_success[OF assms])

lemma failed_status_stored:
  assumes "analysis_id j = Some ident" and "input_type j = Some kind" and "uuid_of w ident = Some u"
    and "dispatch w cfg kind j = (tr, Inl e)" and "analyses (db st) u = Some row"
  shows "map_option a_status (analyses (db (fst (process_job w cfg j st))) u) = Some ''failed''"
  using assms(5) by (simp add: process_job_failure[OF assms(1-4)] update_analyses_lookup)

text \<open>
  C3. A video whose probed duration exceeds the configured cap makes \<open>process_video\<close>
  raise right after the probe: the only calls made are the download and the probe, so
  neither frame extraction nor audio extraction is called, and \<open>process_job\<close> ends
  with the status \<open>failed\<close> written for the job.
\<close>

theorem too_long_video_fails_before_extraction:
  assumes "input_uri j = Some uri" and "download_file w uri = Inr p"
    and "snd (get_video_info w p) = Inr info"
    and "duration info > real_of_int (max_video_duration cfg)"
  shows "process_video w cfg j = ([Download uri, Probe p], Inl (too_long info cfg)) \<and>
         (\<forall>q. ExtractFrames q \<notin> set (fst (process_video w cfg j)) \<and>
              ExtractAudio q \<notin> set (fst (process_video w cfg j))) \<and>
         (analysis_id j = Some ident \<and> input_type j = Some ''video'' \<and> uuid_of w ident = Some u \<longrightarrow>
            snd (process_job w cfg j st) = Inr () \<and>
            job_events w cfg j st =
              [UpdateStatus u ''processing'' None, Download uri, Probe p,
               UpdateStatus u ''failed'' (Some (utcnow w (clock_reads st))), StoreReport u] \<and>
            (analyses (db st) u \<noteq> None \<longrightarrow>
               map_option a_status (analyses (db (fst (process_job w cfg j st))) u) = Some ''failed''))"
proof -
  have pv: "process_video w cfg j = ([Download uri, Probe p], Inl (too_long info cfg))"
    using assms by (rule process_video_too_long)
  have "snd (process_job w cfg j st) = Inr () \<and>
        job_events w cfg j st =
              [UpdateStatus u ''processing'' None, Download uri, Probe p,
               UpdateStatus u ''failed'' (Some (utcnow w (clock_reads st))), StoreReport u] \<and>
            (analyses (db st) u \<noteq> None \<longrightarrow>
               map_option a_status (analyses (db (fst (process_job w cfg j st))) u) = Some ''failed'')"
    if a: "analysis_id j = Some ident" and k: "input_type j = Some ''video''" and v: "uuid_of w ident = Some u"
  proof -
    have d: "dispatch w cfg ''video'' j = ([Download uri, Probe p], Inl (too_long info cfg))"
      by (simp add: dispatch_def pv)
    show ?thesis
      using process_job_failure[OF a k v d, of st] job_events_failure[OF a k v d, of st]
        failed_status_stored[OF a k v d, of st]
      by auto
  qed
  then show ?thesis using pv by simp
qed

theorem too_long_video_fails_before_extraction_witness:
  "input_uri (example_job ''video'') = Some ''clip'' \<and>
   download_file long_video_world ''clip'' = Inr ''/tmp/clip'' \<and>
   snd (get_video_info long_video_world ''/tmp/clip'') = Inr (video_of 301 1280) \<and>
   duration (video_of 301 1280) > real_of_int (max_video_duration example_config) \<and>
   process_video long_video_world example_config (example_job ''video'') =
     ([Download ''clip'', Probe ''/tmp/clip''], Inl (Raised ValueError (VideoTooLong 301 300))) \<and>
   job_events long_video_world example_config (example_job ''video'') example_state =
     [UpdateStatus 7 ''processing'' None, Download ''clip'', Probe ''/tmp/clip'',
      UpdateStatus 7 ''failed'' (Some 1000), StoreReport 7] \<and>
   map_option a_status (analyses (db (fst (process_job long_video_world example_config
      (example_job ''video'') example_state))) 7) = Some ''failed''"
proof -
  have h1: "input_uri (example_job ''video'') = Some ''clip''"
    by (simp add: example_job_def)
  have h2: "download_file long_video_world ''clip'' = Inr ''/tmp/clip''"
    by (simp add: long_video_world_def example_world_def)
  have h3: "snd (get_video_info long_video_world ''/tmp/clip'') = Inr (video_of 301 1280)"
    by (simp add: long_video_world_def example_world_def probe_defs video_of_def)
  have h4: "duration (video_of 301 1280) > real_of_int (max_video_duration example_config)"
    by (simp add: video_of_def example_config_def)
  show ?thesis
    using too_long_video_fails_before_extraction [OF h1 h2 h3 h4, of "''7''" 7 example_state] h1 h2 h3 h4
    by (simp add: example_job_def long_video_world_def example_world_def example_state_def
          too_long_def video_of_def example_config_def)
qed

section \<open>Status transitions and failure containment\<close>

lemma fst_then_run:
  "fst (then_run m f) = fst m @ (case snd m of Inl e \<Rightarrow> [] | Inr x \<Rightarrow> fst (f x))"
  by (simp add: then_run_def split: sum.split)

lemma fst_except_return: "fst (except_return cs d m) = fst m"
  by (simp add: except_return_def split: sum.split)

lemma external_then_run:
  "list_all external_call (fst m) \<Longrightarrow> (\<And>x. list_all external_call (fst (f x))) \<Longrightarrow>
   list_all external_call (fst (then_run m f))"
  by (simp add: fst_then_run split: sum.split)

lemma external_ret: "list_all external_call (fst (ret x))"
  by (simp add: ret_def)

lemma external_raise: "list_all external_call (fst (raise_exc e))"
  by (simp add: raise_exc_def)

lemma external_call_run: "external_call ev \<Longrightarrow> list_all external_call (fst (call ev r))"
  by (simp add: call_def)

lemma external_except: "list_all external_call (fst m) \<Longrightarrow> list_all external_call (fst (except_return cs d m))"
  by (simp add: fst_except_return)

lemma external_input_uri: "list_all external_call (fst (get_input_uri j))"
  by (simp add: get_input_uri_def ret_def raise_exc_def split: option.split)

lemma external_analyze_frames: "list_all external_call (fst (analyze_frames w ps))"
  by (induction ps) (simp_all add: external_ret external_then_run external_call_run)

lemma external_get_video_info: "list_all external_call (fst (get_video_info w p))"
  by (simp add: get_video_info_events)

lemma fst_extract_frames: "fst (extract_frames w p) = [ExtractFrames p]"
  by (simp add: extract_frames_def fst_except_return call_def)

lemma fst_extract_audio: "fst (extract_audio w p) = [ExtractAudio p]"
  by (simp add: extract_audio_def fst_except_return call_def)

lemma fst_transcribe_audio: "fst (transcribe_audio w p) = [Transcribe p]"
  by (simp add: transcribe_audio_def fst_except_return call_def)

lemma external_process_image: "list_all external_call (fst (process_image w j))"
  unfolding process_image_def
  by (intro external_then_run external_input_uri external_call_run)
     (simp_all add: external_ret split: prod.split)

lemma external_process_text: "list_all external_call (fst (process_text w j))"
  unfolding process_text_def Let_def
  by (intro external_then_run external_input_uri external_call_run)
     (simp_all add: external_ret split: prod.split)

lemma external_if:
  "list_all external_call (fst a) \<Longrightarrow> list_all external_call (fst b) \<Longrightarrow>
   list_all external_call (fst (if c then a else b))"
  by simp

lemma external_scored:
  "list_all external_call (fst (case sc of (credibility, expl) \<Rightarrow> ret (f credibility expl)))"
  by (simp add: external_ret split: prod.split)

lemma external_process_video: "list_all external_call (fst (process_video w cfg j))"
  unfolding process_video_def
  by (intro external_then_run external_input_uri external_call_run external_get_video_info
        external_if external_raise external_analyze_frames external_scored)
     (simp_all add: fst_extract_frames fst_extract_audio fst_transcribe_audio external_ret
        split: prod.split)

lemma external_dispatch: "list_all external_call (fst (dispatch w cfg kind j))"
  by (simp add: dispatch_def external_process_image external_process_video external_process_text
        external_raise)

lemma status_writes_append: "status_writes u (xs @ ys) = status_writes u xs @ status_writes u ys"
  by (induction u xs rule: status_writes.induct) simp_all

lemma status_writes_external: "list_all external_call tr \<Longrightarrow> status_writes u tr = []"
  by (induction u tr rule: status_writes.induct) simp_all

lemma status_writes_dispatch: "status_writes u (fst (dispatch w cfg kind j)) = []"
  by (rule status_writes_external[OF external_dispatch])



lemma status_writes_failure:
  assumes "analysis_id j = Some ident" and "input_type j = Some kind" and "uuid_of w ident = Some u'"
    and "dispatch w cfg kind j = (tr, Inl e)"
  shows "status_writes u (job_events w cfg j st) = (if u = u' then [''processing'', ''failed''] else [])"
  using status_writes_dispatch[of u w cfg kind j] assms(4)
  by (auto simp add: job_events_failure[OF assms] status_writes_append)

lemma status_writes_success:
  assumes "analysis_id j = Some ident" and "input_type j = Some kind" and "uuid_of w ident = Some u'"
    and "dispatch w cfg kind j = (tr, Inr res)"
  shows "status_writes u (job_events w cfg j st) = (if u = u' then [''processing'', ''done''] else [])"
  using status_writes_dispatch[of u w cfg kind j] assms(4)
  by (auto simp add: job_events_success[OF assms] status_writes_append)


















lemma start_never_leaves:
  "Interrupt \<notin> set ps \<Longrightarrow> snd (start w cfg ps st) = []"
proof (induction ps arbitrary: st)
  case Nil
  then show ?case by simp
next
  case (Cons p ps)
  then show ?case by (cases p) simp_all
qed

lemma upsert_holds_new:
  "\<exists>row \<in> set (upsert_report new rows).
     r_analysis_id row = r_analysis_id new \<and> r_credibility_score row = r_credibility_score new \<and>
     r_explanation row = r_explanation new"
  by (induction rows) auto




lemma raised_job_contained:
  assumes "analysis_id j = Some ident" and "input_type j = Some kind" and "uuid_of w ident = Some u"
    and "snd (dispatch w cfg kind j) = Inl e"
  shows "snd (process_job w cfg j st) = Inr () \<and>
         status_writes u (job_events w cfg j st) = [''processing'', ''failed''] \<and>
         (analyses (db st) u \<noteq> None \<longrightarrow>
            map_option a_status (analyses (db (fst (process_job w cfg j st))) u) = Some ''failed'') \<and>
         (\<exists>row \<in> set (analysis_reports (db (fst (process_job w cfg j st)))).
            r_analysis_id row = u \<and> r_credibility_score row = None \<and>
            r_explanation row = ErrorExplanation (str e) ''failed'') \<and>
         (json_loads w payload = Inr j \<longrightarrow>
            start w cfg (Item payload # ps) st = start w cfg ps (fst (process_job w cfg j st))) \<and>
         (json_loads w payload = Inr j \<and> Interrupt \<notin> set ps \<longrightarrow>
            snd (start w cfg (Item payload # ps) st) = [])"
proof -
  obtain tr where d: "dispatch w cfg kind j = (tr, Inl e)"
    using assms(4) by (cases "dispatch w cfg kind j") simp
  note pj = process_job_failure[OF assms(1-3) d, of st]
  have 1: "snd (process_job w cfg j st) = Inr ()" by (simp add: pj)
  have 2: "status_writes u (job_events w cfg j st) = [''processing'', ''failed'']"
    by (simp add: status_writes_failure[OF assms(1-3) d])
  have 3: "analyses (db st) u \<noteq> None \<longrightarrow>
            map_option a_status (analyses (db (fst (process_job w cfg j st))) u) = Some ''failed''"
    using failed_status_stored[OF assms(1-3) d] by auto
  have 4: "\<exists>row \<in> set (analysis_reports (db (fst (process_job w cfg j st)))).
            r_analysis_id row = u \<and> r_credibility_score row = None \<and>
            r_explanation row = ErrorExplanation (str e) ''failed''"
    using upsert_holds_new[of "\<lparr>r_id = uuid4 w (uuids_drawn st), r_analysis_id = u,
                    r_credibility_score = None,
                    r_explanation = ErrorExplanation (str e) ''failed'',
                    r_artifacts = [],
                    r_version = ''v1.0'',
                    r_created_at = utcnow w (clock_reads st + 1)\<rparr>" "analysis_reports (db st)"]
    by (simp add: pj)
  have 5: "start w cfg (Item payload # ps) st = start w cfg ps (fst (process_job w cfg j st))"
    if "json_loads w payload = Inr j"
    using that by (simp add: loop_round_def pj)
  have 6: "snd (start w cfg (Item payload # ps) st) = []" if "Interrupt \<notin> set ps"
    using that by (simp add: start_never_leaves)
  show ?thesis using 1 2 3 4 5 6 by blast
qed

lemma snd_then_run_raises: "snd m = Inl e \<Longrightarrow> snd (then_run m f) = Inl e"
  by (simp add: then_run_def)

lemma snd_then_run_returns: "snd m = Inr x \<Longrightarrow> snd (then_run m f) = snd (f x)"
  by (simp add: then_run_def)

lemma snd_extract_frames:
  "snd (extract_frames w p) =
     (case ffmpeg_frames w p of
        Inl e \<Rightarrow> if exc_class_of e = CalledProcessError then Inr [] else Inl e
      | Inr fs \<Rightarrow> Inr fs)"
  by (simp add: extract_frames_def except_return_def call_def split: sum.split)

lemma snd_extract_audio:
  "snd (extract_audio w p) =
     (case ffmpeg_audio w p of
        Inl e \<Rightarrow> if exc_class_of e = CalledProcessError then Inr () else Inl e
      | Inr u \<Rightarrow> Inr ())"
  by (simp add: extract_audio_def except_return_def call_def split: sum.split)

lemma transcribe_never_raises: "\<exists>t. snd (transcribe_audio w p) = Inr t"
proof (cases "recognize w p")
  case (Inl e)
  obtain c m where "e = Raised c m" by (cases e)
  with Inl show ?thesis
    by (cases c) (simp_all add: transcribe_audio_def except_return_def call_def all_classes_def)
next
  case (Inr t)
  then show ?thesis by (simp add: transcribe_audio_def except_return_def call_def)
qed

lemma snd_get_video_info:
  "snd (get_video_info w p) =
     (case snd (probe_video w p) of
        Inl e \<Rightarrow> if exc_class_of e \<in> set [CalledProcessError, JSONDecodeError, KeyError]
                 then Inr zeroed_info else Inl e
      | Inr info \<Rightarrow> Inr info)"
  by (simp add: get_video_info_def except_return_def split: sum.split)

lemma scored_returns: "\<exists>r. snd (case sc of (credibility, expl) \<Rightarrow> ret (f credibility expl)) = Inr r"
  by (simp add: ret_def split: prod.split)

lemma snd_then_run:
  "snd (then_run m f) = (case snd m of Inl e \<Rightarrow> Inl e | Inr x \<Rightarrow> snd (f x))"
  by (simp add: then_run_def split: sum.split)

lemma transcribe_no_raise: "snd (transcribe_audio w p) \<noteq> Inl e"
  using transcribe_never_raises[of w p] by auto

lemma snd_scored [simp]:
  "snd (case sc of (credibility, expl) \<Rightarrow> ret (f credibility expl)) \<noteq> Inl e"
  by (simp add: ret_def split: prod.split)

lemma media_kind_cases:
  "kind \<in> set media_kinds \<longleftrightarrow> kind = ''image'' \<or> kind = ''video'' \<or> kind = ''text''"
  by (auto simp add: media_kinds_def)

lemma image_raises_iff:
  "snd (process_image w j) = Inl e \<longleftrightarrow>
     (case input_uri j of
        None \<Rightarrow> e = key_error ''input_uri''
      | Some uri \<Rightarrow>
          (case download_file w uri of
             Inl e' \<Rightarrow> e' = e
           | Inr p \<Rightarrow>
               (case open_image w p of
                  Inl e' \<Rightarrow> e' = e
                | Inr info \<Rightarrow> annotate_image w p = Inl e)))"
  by (auto simp add: process_image_def snd_then_run get_input_uri_def call_def ret_def raise_exc_def
        split: option.split sum.split prod.split)

lemma text_raises_iff:
  "snd (process_text w j) = Inl e \<longleftrightarrow>
     (case input_uri j of
        None \<Rightarrow> e = key_error ''input_uri''
      | Some uri \<Rightarrow>
          (case download_file w uri of
             Inl e' \<Rightarrow> e' = e
           | Inr p \<Rightarrow> read_text w p = Inl e))"
  by (auto simp add: process_text_def snd_then_run get_input_uri_def call_def ret_def raise_exc_def
        Let_def split: option.split sum.split prod.split)

lemma video_raises_iff:
  "snd (process_video w cfg j) = Inl e \<longleftrightarrow>
     (case input_uri j of
        None \<Rightarrow> e = key_error ''input_uri''
      | Some uri \<Rightarrow>
          (case download_file w uri of
             Inl e' \<Rightarrow> e' = e
           | Inr p \<Rightarrow>
               (case snd (get_video_info w p) of
                  Inl e' \<Rightarrow> e' = e
                | Inr info \<Rightarrow>
                    if duration info > real_of_int (max_video_duration cfg) then e = too_long info cfg
                    else (case snd (extract_frames w p) of
                            Inl e' \<Rightarrow> e' = e
                          | Inr frame_paths \<Rightarrow>
                              (case snd (extract_audio w p) of
                                 Inl e' \<Rightarrow> e' = e
                               | Inr u \<Rightarrow>
                                   snd (analyze_frames w (sample_frames frame_paths)) = Inl e)))))"
  by (auto simp add: process_video_def snd_then_run get_input_uri_def call_def ret_def raise_exc_def
        transcribe_no_raise split: option.split sum.split prod.split)

lemma escapes_raises: "escapes w cfg kind j e \<Longrightarrow> snd (dispatch w cfg kind j) = Inl e"
proof (induction rule: escapes.induct)
  case (unsupported kind j)
  then show ?case by (simp add: dispatch_def media_kind_cases raise_exc_def)
next
  case (no_uri kind j)
  then show ?case
    by (auto simp add: dispatch_def media_kind_cases image_raises_iff text_raises_iff video_raises_iff)
next
  case (download kind j uri e)
  then show ?case
    by (auto simp add: dispatch_def media_kind_cases image_raises_iff text_raises_iff video_raises_iff)
next
  case (open_image j uri p e)
  then show ?case by (simp add: dispatch_def image_raises_iff)
next
  case (annotate_image j uri p info e)
  then show ?case by (simp add: dispatch_def image_raises_iff)
next
  case (read_text j uri p e)
  then show ?case by (simp add: dispatch_def text_raises_iff)
next
  case (probe j uri p e)
  then show ?case by (simp add: dispatch_def video_raises_iff snd_get_video_info)
next
  case (too_long j uri p info)
  then show ?case by (simp add: dispatch_def video_raises_iff)
next
  case (frames j uri p info e)
  then show ?case by (simp add: dispatch_def video_raises_iff snd_extract_frames)
next
  case (audio j uri p info frame_paths e)
  then show ?case by (simp add: dispatch_def video_raises_iff snd_extract_audio)
next
  case (annotate_frame j uri p info frame_paths e)
  then show ?case by (simp add: dispatch_def video_raises_iff)
qed

lemma raises_escapes:
  assumes "snd (dispatch w cfg kind j) = Inl e"
  shows "escapes w cfg kind j e"
proof (cases "kind \<in> set media_kinds")
  case False
  then have "snd (dispatch w cfg kind j) = Inl (Raised ValueError (UnsupportedInputType kind))"
    by (simp add: dispatch_def media_kind_cases raise_exc_def)
  with assms False show ?thesis by (auto intro: escapes.unsupported)
next
  case True
  note kind = True
  show ?thesis
  proof (cases "input_uri j")
    case None
    with assms kind have "e = key_error ''input_uri''"
      by (auto simp add: dispatch_def media_kind_cases image_raises_iff text_raises_iff video_raises_iff)
    with kind None show ?thesis by (auto intro: escapes.no_uri)
  next
    case (Some uri)
    show ?thesis
    proof (cases "download_file w uri")
      case (Inl e')
      with assms kind Some have "e' = e"
        by (auto simp add: dispatch_def media_kind_cases image_raises_iff text_raises_iff video_raises_iff)
      with kind Some Inl show ?thesis by (auto intro: escapes.download)
    next
      case (Inr p)
      consider "kind = ''image''" | "kind = ''video''" | "kind = ''text''"
        using kind by (auto simp add: media_kind_cases)
      then show ?thesis
      proof cases
        case 1
        with assms Some Inr show ?thesis
          by (auto simp add: dispatch_def image_raises_iff split: sum.splits
                intro: escapes.open_image escapes.annotate_image)
      next
        case 3
        with assms Some Inr show ?thesis
          by (auto simp add: dispatch_def text_raises_iff intro: escapes.read_text)
      next
        case 2
        with assms Some Inr have v: "(case snd (get_video_info w p) of
                  Inl e' \<Rightarrow> e' = e
                | Inr info \<Rightarrow>
                    if duration info > real_of_int (max_video_duration cfg) then e = too_long info cfg
                    else (case snd (extract_frames w p) of
                            Inl e' \<Rightarrow> e' = e
                          | Inr frame_paths \<Rightarrow>
                              (case snd (extract_audio w p) of
                                 Inl e' \<Rightarrow> e' = e
                               | Inr u \<Rightarrow>
                                   snd (analyze_frames w (sample_frames frame_paths)) = Inl e)))"
          by (simp add: dispatch_def video_raises_iff)
        show ?thesis
        proof (cases "snd (get_video_info w p)")
          case (Inl e')
          with v have "snd (get_video_info w p) = Inl e" by simp
          then have "snd (probe_video w p) = Inl e \<and>
                     exc_class_of e \<notin> set [CalledProcessError, JSONDecodeError, KeyError]"
            by (auto simp add: snd_get_video_info split: sum.splits if_splits)
          with 2 Some Inr show ?thesis by (auto intro: escapes.probe)
        next
          case info: (Inr info)
          show ?thesis
          proof (cases "duration info > real_of_int (max_video_duration cfg)")
            case True
            with v info have "e = too_long info cfg" by simp
            with 2 Some Inr info True show ?thesis by (auto intro: escapes.too_long)
          next
            case short: False
            then have le: "duration info \<le> real_of_int (max_video_duration cfg)" by simp
            show ?thesis
            proof (cases "snd (extract_frames w p)")
              case (Inl e')
              with v info short have "snd (extract_frames w p) = Inl e" by simp
              then have "ffmpeg_frames w p = Inl e \<and> exc_class_of e \<noteq> CalledProcessError"
                by (auto simp add: snd_extract_frames split: sum.splits if_splits)
              with 2 Some Inr info le show ?thesis by (auto intro: escapes.frames)
            next
              case fr: (Inr frame_paths)
              show ?thesis
              proof (cases "snd (extract_audio w p)")
                case (Inl e')
                with v info short fr have "snd (extract_audio w p) = Inl e" by simp
                then have "ffmpeg_audio w p = Inl e \<and> exc_class_of e \<noteq> CalledProcessError"
                  by (auto simp add: snd_extract_audio split: sum.splits if_splits)
                with 2 Some Inr info le fr show ?thesis by (auto intro: escapes.audio)
              next
                case au: (Inr u)
                with v info short fr
                have "snd (analyze_frames w (sample_frames frame_paths)) = Inl e" by simp
                with 2 Some Inr info le fr au show ?thesis
                  by (auto intro: escapes.annotate_frame)
              qed
            qed
          qed
        qed
      qed
    qed
  qed
qed

lemma escapes_iff: "escapes w cfg kind j e \<longleftrightarrow> snd (dispatch w cfg kind j) = Inl e"
  using escapes_raises raises_escapes by blast

text \<open>
  C8, as amended. An exception that leaves the pipeline of a job (any exception of the
  fetch, of opening the image, of a vision call, of reading the text, the duration and
  type errors the worker raises itself, and an exception of the probe, of frame
  extraction or of audio extraction outside the classes that step catches) is caught by
  \<open>process_job\<close>, which returns normally after writing the status \<open>failed\<close> and a
  report row without score whose explanation carries the message of the exception; the
  loop of \<open>start\<close> goes on with the next poll, and leaves none unconsumed unless it
  is interrupted.
\<close>

theorem job_failure_contained:
  assumes "analysis_id j = Some ident" and "input_type j = Some kind" and "uuid_of w ident = Some u"
    and "escapes w cfg kind j e"
  shows "snd (process_job w cfg j st) = Inr () \<and>
         status_writes u (job_events w cfg j st) = [''processing'', ''failed''] \<and>
         (analyses (db st) u \<noteq> None \<longrightarrow>
            map_option a_status (analyses (db (fst (process_job w cfg j st))) u) = Some ''failed'') \<and>
         (\<exists>row \<in> set (analysis_reports (db (fst (process_job w cfg j st)))).
            r_analysis_id row = u \<and> r_credibility_score row = None \<and>
            r_explanation row = ErrorExplanation (str e) ''failed'') \<and>
         (json_loads w payload = Inr j \<longrightarrow>
            start w cfg (Item payload # ps) st = start w cfg ps (fst (process_job w cfg j st))) \<and>
         (json_loads w payload = Inr j \<and> Interrupt \<notin> set ps \<longrightarrow>
            snd (start w cfg (Item payload # ps) st) = [])"
  using raised_job_contained[OF assms(1-3) escapes_raises[OF assms(4)]] .

theorem job_failure_contained_witness:
  "analysis_id (example_job ''image'') = Some ''7'' \<and>
   input_type (example_job ''image'') = Some ''image'' \<and>
   uuid_of no_storage_world ''7'' = Some 7 \<and>
   escapes no_storage_world example_config ''image'' (example_job ''image'')
     (Raised OtherException (Text ''404 not found'')) \<and>
   json_loads no_storage_world ''image'' = Inr (example_job ''image'') \<and>
   snd (process_job no_storage_world example_config (example_job ''image'') example_state) = Inr () \<and>
   status_writes 7 (job_events no_storage_world example_config (example_job ''image'') example_state) =
     [''processing'', ''failed''] \<and>
   map_option a_status (analyses (db (fst (process_job no_storage_world example_config
      (example_job ''image'') example_state))) 7) = Some ''failed'' \<and>
   (\<exists>row \<in> set (analysis_reports (db (fst (process_job no_storage_world example_config
        (example_job ''image'') example_state)))).
      r_analysis_id row = 7 \<and> r_credibility_score row = None \<and>
      r_explanation row = ErrorExplanation (Text ''404 not found'') ''failed'') \<and>
   start no_storage_world example_config [Item ''image'', Timeout, Item ''text''] example_state =
     start no_storage_world example_config [Timeout, Item ''text'']
       (fst (process_job no_storage_world example_config (example_job ''image'') example_state)) \<and>
   snd (start no_storage_world example_config [Item ''image'', Timeout, Item ''text''] example_state) = []"
proof -
  have h1: "analysis_id (example_job ''image'') = Some ''7''"
    and h2: "input_type (example_job ''image'') = Some ''image''"
    by (simp_all add: example_job_def)
  have h3: "uuid_of no_storage_world ''7'' = Some 7"
    by (simp add: no_storage_world_def example_world_def)
  have h4: "escapes no_storage_world example_config ''image'' (example_job ''image'')
     (Raised OtherException (Text ''404 not found''))"
    by (rule escapes.download[where uri = "''clip''"])
       (simp_all add: media_kinds_def example_job_def no_storage_world_def example_world_def)
  have h5: "json_loads no_storage_world ''image'' = Inr (example_job ''image'')"
    by (simp add: no_storage_world_def example_world_def)
  have h6: "analyses (db example_state) 7 \<noteq> None"
    by (simp add: example_state_def)
  have h7: "Interrupt \<notin> set [Timeout, Item ''text'']"
    by simp
  show ?thesis
    using job_failure_contained [OF h1 h2 h3 h4, of example_state "''image''" "[Timeout, Item ''text'']"]
      h1 h2 h3 h4 h5 h6 h7
    by simp
qed

lemma speech_down_dispatch:
  "dispatch speech_down_world example_config ''video'' (example_job ''video'') =
     ([Download ''clip'', Probe ''/tmp/clip'', ExtractFrames ''/tmp/clip'', ExtractAudio ''/tmp/clip'',
       AnnotateFrame ''frame_0001.jpg'', AnnotateFrame ''frame_0002.jpg'', Transcribe ''/tmp/clip''],
      Inr \<lparr>credibility_score = Some 0.75, explanation = VideoExplanation [] 2 0 12, artifacts = None,
          details = VideoDetails (video_of 12 1280)
            [\<lparr>fr_frame = ''frame_0001.jpg'', fr_faces = [], fr_labels = []\<rparr>,
             \<lparr>fr_frame = ''frame_0002.jpg'', fr_faces = [], fr_labels = []\<rparr>] []\<rparr>)"
  by (simp add: dispatch_def process_video_def speech_down_world_def example_world_def
        example_config_def example_job_def get_input_uri_def ret_def probe_defs extract_frames_def
        extract_audio_def transcribe_audio_def all_classes_def sample_frames_def raise_exc_def
        calculate_video_credibility_def video_rules_def penalise_def clamp_def video_of_def)

text \<open>
  C8, as stated, fails for an exception raised during signal extraction inside a
  \<open>try\<close> statement of the media processor: when the speech service fails, line 313
  catches the exception, the transcript is empty and the job ends \<open>done\<close> with a
  score.
\<close>

theorem swallowed_exception_counterexample:
  "recognize speech_down_world ''/tmp/clip'' =
     Inl (Raised OtherException (Text ''503 service unavailable'')) \<and>
   Transcribe ''/tmp/clip'' \<in> set (fst (dispatch speech_down_world example_config ''video''
     (example_job ''video''))) \<and>
   snd (process_job speech_down_world example_config (example_job ''video'') example_state) = Inr () \<and>
   status_writes 7 (job_events speech_down_world example_config (example_job ''video'') example_state) =
     [''processing'', ''done''] \<and>
   map r_credibility_score (analysis_reports (db (fst (process_job speech_down_world example_config
     (example_job ''video'') example_state)))) = [Some 0.75]"
proof -
  let ?j = "example_job ''video''"
  have a: "analysis_id ?j = Some ''7''" and k: "input_type ?j = Some ''video''"
    by (simp_all add: example_job_def)
  have v: "uuid_of speech_down_world ''7'' = Some 7"
    by (simp add: speech_down_world_def example_world_def)
  note d = speech_down_dispatch
  have "recognize speech_down_world ''/tmp/clip'' =
     Inl (Raised OtherException (Text ''503 service unavailable''))"
    by (simp add: speech_down_world_def)
  moreover have "Transcribe ''/tmp/clip'' \<in> set (fst (dispatch speech_down_world example_config ''video'' ?j))"
    by (simp add: d)
  moreover have "snd (process_job speech_down_world example_config ?j example_state) = Inr ()"
    by (simp add: process_job_success[OF a k v d])
  moreover have "status_writes 7 (job_events speech_down_world example_config ?j example_state) =
     [''processing'', ''done'']"
    by (simp add: status_writes_success[OF a k v d])
  moreover have "map r_credibility_score (analysis_reports (db (fst (process_job speech_down_world
      example_config ?j example_state)))) = [Some 0.75]"
    by (simp add: process_job_success[OF a k v d] example_state_def)
  ultimately show ?thesis by simp
qed

section \<open>Probe failures\<close>

lemma fst_probe_video: "fst (probe_video w p) = [Probe p]"
  by (simp add: probe_video_def fst_then_run call_def split: sum.split)

lemma get_video_info_degrades:
  "snd (probe_video w p) = Inl e \<Longrightarrow>
   exc_class_of e \<in> {CalledProcessError, JSONDecodeError, KeyError} \<Longrightarrow>
   get_video_info w p = ([Probe p], Inr zeroed_info)"
  using fst_probe_video[of w p] by (auto simp add: get_video_info_def except_return_def)

lemma get_video_info_propagates:
  "snd (probe_video w p) = Inl e \<Longrightarrow>
   exc_class_of e \<notin> {CalledProcessError, JSONDecodeError, KeyError} \<Longrightarrow>
   get_video_info w p = ([Probe p], Inl e)"
  using fst_probe_video[of w p]
  by (cases "probe_video w p") (auto simp add: get_video_info_def except_return_def)

lemma process_video_after_probe:
  assumes "input_uri j = Some uri" and "download_file w uri = Inr p"
    and "get_video_info w p = ([Probe p], Inr info)"
    and "\<not> duration info > real_of_int (max_video_duration cfg)"
  shows "take 3 (fst (process_video w cfg j)) = [Download uri, Probe p, ExtractFrames p]"
  using assms
  by (simp add: process_video_def get_input_uri_def fst_then_run ret_def call_def
        fst_extract_frames)

text \<open>
  C9, as amended. When the probe raises \<open>CalledProcessError\<close>, \<open>JSONDecodeError\<close> or
  \<open>KeyError\<close>, \<open>_get_video_info\<close> returns the zeroed metadata, and with a
  non-negative duration cap the video pipeline goes on to extract frames.
\<close>

theorem caught_probe_failure_degrades:
  assumes "snd (probe_video w p) = Inl e"
    and "exc_class_of e \<in> {CalledProcessError, JSONDecodeError, KeyError}"
  shows "get_video_info w p = ([Probe p], Inr zeroed_info) \<and>
         (input_uri j = Some uri \<and> download_file w uri = Inr p \<and> 0 \<le> max_video_duration cfg \<longrightarrow>
            take 3 (fst (process_video w cfg j)) = [Download uri, Probe p, ExtractFrames p])"
proof -
  have g: "get_video_info w p = ([Probe p], Inr zeroed_info)"
    using assms by (rule get_video_info_degrades)
  have "take 3 (fst (process_video w cfg j)) = [Download uri, Probe p, ExtractFrames p]"
    if "input_uri j = Some uri" "download_file w uri = Inr p" "0 \<le> max_video_duration cfg"
    using that by (intro process_video_after_probe[OF _ _ g]) (simp_all add: zeroed_info_def)
  with g show ?thesis by simp
qed

theorem caught_probe_failure_degrades_witness:
  "snd (probe_video failed_probe_world ''/tmp/clip'') = Inl (Raised CalledProcessError (Text ''exit status 1'')) \<and>
   exc_class_of (Raised CalledProcessError (Text ''exit status 1'')) = CalledProcessError \<and>
   input_uri (example_job ''video'') = Some ''clip'' \<and>
   download_file failed_probe_world ''clip'' = Inr ''/tmp/clip'' \<and>
   0 \<le> max_video_duration example_config \<and>
   get_video_info failed_probe_world ''/tmp/clip'' = ([Probe ''/tmp/clip''], Inr zeroed_info) \<and>
   take 3 (fst (process_video failed_probe_world example_config (example_job ''video''))) =
     [Download ''clip'', Probe ''/tmp/clip'', ExtractFrames ''/tmp/clip'']"
proof -
  have h1: "snd (probe_video failed_probe_world ''/tmp/clip'') =
            Inl (Raised CalledProcessError (Text ''exit status 1''))"
    by (simp add: failed_probe_world_def example_world_def probe_video_def then_run_def call_def)
  have h2: "exc_class_of (Raised CalledProcessError (Text ''exit status 1''))
              \<in> {CalledProcessError, JSONDecodeError, KeyError}"
    by simp
  show ?thesis
    using caught_probe_failure_degrades [OF h1 h2, of "example_job ''video''" "''clip''" example_config] h1
    by (simp add: example_job_def failed_probe_world_def example_world_def example_config_def)
qed

text \<open>
  C9, as stated, fails when ffprobe cannot be started and when it reports a duration
  that \<open>float\<close> rejects: neither exception is among the caught classes,
  \<open>_get_video_info\<close> raises it and the video pipeline stops.
\<close>

theorem uncaught_probe_failure_counterexample:
  "get_video_info no_ffprobe_world ''/tmp/clip'' =
     ([Probe ''/tmp/clip''], Inl (Raised OtherException (Text ''No such file or directory: ffprobe''))) \<and>
   process_video no_ffprobe_world example_config (example_job ''video'') =
     ([Download ''clip'', Probe ''/tmp/clip''],
      Inl (Raised OtherException (Text ''No such file or directory: ffprobe''))) \<and>
   get_video_info bad_duration_world ''/tmp/clip'' =
     ([Probe ''/tmp/clip''], Inl (Raised ValueError (Text ''could not convert string to float''))) \<and>
   process_video bad_duration_world example_config (example_job ''video'') =
     ([Download ''clip'', Probe ''/tmp/clip''],
      Inl (Raised ValueError (Text ''could not convert string to float'')))"
  by (simp add: bad_duration_world_def no_ffprobe_world_def example_world_def probe_defs
        process_video_def get_input_uri_def example_job_def ret_def)

section \<open>Stored reports\<close>

lemma upsert_other_rows:
  "filter (\<lambda>r. r_analysis_id r \<noteq> r_analysis_id new) (upsert_report new rows) =
   filter (\<lambda>r. r_analysis_id r \<noteq> r_analysis_id new) rows"
  by (induction rows) simp_all

lemma upsert_fresh:
  "\<forall>r \<in> set rows. r_analysis_id r \<noteq> r_analysis_id new \<Longrightarrow> upsert_report new rows = rows @ [new]"
  by (induction rows) simp_all

lemma upsert_ids: "set (map r_analysis_id (upsert_report new rows)) = insert (r_analysis_id new) (set (map r_analysis_id rows))"
  by (induction rows) auto

lemma upsert_distinct:
  "distinct (map r_analysis_id rows) \<Longrightarrow> distinct (map r_analysis_id (upsert_report new rows))"
proof (induction rows)
  case Nil
  then show ?case by simp
next
  case (Cons r rows)
  show ?case
  proof (cases "r_analysis_id r = r_analysis_id new")
    case True
    with Cons.prems show ?thesis by simp
  next
    case False
    have "r_analysis_id r \<notin> set (map r_analysis_id (upsert_report new rows))"
      using Cons.prems False by (simp only: upsert_ids) auto
    with Cons False show ?thesis by simp
  qed
qed

lemma filter_absent: "\<forall>r \<in> set rows. r_analysis_id r \<noteq> u \<Longrightarrow> filter (\<lambda>r. r_analysis_id r = u) rows = []"
  by (induction rows) simp_all

lemma upsert_same_rows:
  "distinct (map r_analysis_id rows) \<Longrightarrow>
   filter (\<lambda>r. r_analysis_id r = r_analysis_id new) (upsert_report new rows) =
     (case filter (\<lambda>r. r_analysis_id r = r_analysis_id new) rows of
        [] \<Rightarrow> [new]
      | row # _ \<Rightarrow> [row\<lparr>r_credibility_score := r_credibility_score new,
                        r_explanation := r_explanation new,
                        r_artifacts := r_artifacts new,
                        r_version := r_version new\<rparr>])"
proof (induction rows)
  case Nil
  then show ?case by simp
next
  case (Cons r rows)
  show ?case
  proof (cases "r_analysis_id r = r_analysis_id new")
    case True
    with Cons.prems have absent: "r_analysis_id new \<notin> r_analysis_id ` set rows" by simp
    have "\<forall>x \<in> set rows. r_analysis_id x \<noteq> r_analysis_id new"
    proof
      fix x
      assume "x \<in> set rows"
      then have "r_analysis_id x \<in> r_analysis_id ` set rows" by (rule imageI)
      with absent show "r_analysis_id x \<noteq> r_analysis_id new" by metis
    qed
    then have "filter (\<lambda>r. r_analysis_id r = r_analysis_id new) rows = []" by (rule filter_absent)
    with True show ?thesis by simp
  next
    case False
    with Cons show ?thesis by simp
  qed
qed

lemma reports_after_store:
  assumes "uuid_of w ident = Some u"
  shows "analysis_reports (db (fst (store_results w ident res st))) =
         upsert_report (stored_row w u res st) (analysis_reports (db st))"
    and "uuids_drawn (fst (store_results w ident res st)) = uuids_drawn st + 1"
    and "clock_reads (fst (store_results w ident res st)) = clock_reads st + 1"
  by (simp_all add: store_results_valid[OF assms] stored_row_def)

lemma stored_row_fields [simp]:
  "r_analysis_id (stored_row w u res st) = u"
  "r_credibility_score (stored_row w u res st) = credibility_score res"
  "r_explanation (stored_row w u res st) = explanation res"
  "r_artifacts (stored_row w u res st) = (case artifacts res of None \<Rightarrow> [] | Some a \<Rightarrow> a)"
  "r_version (stored_row w u res st) = ''v1.0''"
  "r_id (stored_row w u res st) = uuid4 w (uuids_drawn st)"
  "r_created_at (stored_row w u res st) = utcnow w (clock_reads st)"
  by (simp_all add: stored_row_def)

text \<open>
  C6. After two calls of \<open>_store_results\<close> for one analysis there is exactly one row
  for it: the row left by the first call with the score, explanation, artifacts and
  version of the second; its \<open>id\<close> and \<open>created_at\<close> are unchanged, and are those
  drawn by the first call when no row existed before.
\<close>

theorem second_store_overwrites_one_row:
  assumes "uuid_of w ident = Some u"
    and "distinct (map r_analysis_id (analysis_reports (db st)))"
  shows "\<exists>row. reports_of u (fst (store_results w ident first st)) = [row] \<and>
           reports_of u (fst (store_results w ident second (fst (store_results w ident first st)))) =
             [row\<lparr>r_credibility_score := credibility_score second,
                  r_explanation := explanation second,
                  r_artifacts := (case artifacts second of None \<Rightarrow> [] | Some a \<Rightarrow> a),
                  r_version := ''v1.0''\<rparr>] \<and>
           (reports_of u st = [] \<longrightarrow>
              r_id row = uuid4 w (uuids_drawn st) \<and> r_created_at row = utcnow w (clock_reads st))"
proof -
  let ?st1 = "fst (store_results w ident first st)"
  let ?new1 = "stored_row w u first st"
  let ?new2 = "stored_row w u second ?st1"
  have r1: "analysis_reports (db ?st1) = upsert_report ?new1 (analysis_reports (db st))"
    by (rule reports_after_store(1)[OF assms(1)])
  have d1: "distinct (map r_analysis_id (analysis_reports (db ?st1)))"
    by (simp only: r1 upsert_distinct[OF assms(2)])
  have f1: "reports_of u ?st1 =
      (case reports_of u st of [] \<Rightarrow> [?new1]
       | row # _ \<Rightarrow> [row\<lparr>r_credibility_score := credibility_score first,
                        r_explanation := explanation first,
                        r_artifacts := (case artifacts first of None \<Rightarrow> [] | Some a \<Rightarrow> a),
                        r_version := ''v1.0''\<rparr>])"
    using upsert_same_rows[OF assms(2), of ?new1] by (simp add: reports_of_def r1 split: list.split)
  then obtain row where row: "reports_of u ?st1 = [row]"
    by (cases "reports_of u st") auto
  have fresh: "r_id row = uuid4 w (uuids_drawn st) \<and> r_created_at row = utcnow w (clock_reads st)"
    if "reports_of u st = []"
    using that f1 row by simp
  have "reports_of u (fst (store_results w ident second ?st1)) =
      (case reports_of u ?st1 of [] \<Rightarrow> [?new2]
       | row # _ \<Rightarrow> [row\<lparr>r_credibility_score := credibility_score second,
                        r_explanation := explanation second,
                        r_artifacts := (case artifacts second of None \<Rightarrow> [] | Some a \<Rightarrow> a),
                        r_version := ''v1.0''\<rparr>])"
    using upsert_same_rows[OF d1, of ?new2]
    by (simp add: reports_of_def reports_after_store(1)[OF assms(1)] split: list.split)
  with row fresh show ?thesis by simp
qed

theorem second_store_overwrites_one_row_witness:
  "uuid_of example_world ''7'' = Some 7 \<and>
   distinct (map r_analysis_id (analysis_reports (db example_state))) \<and>
   reports_of 7 example_state = [] \<and>
   reports_of 7 (fst (store_results example_world ''7'' (results_of 0.8) example_state)) =
     [\<lparr>r_id = 100, r_analysis_id = 7, r_credibility_score = Some 0.8,
       r_explanation = ImageExplanation [] 0 0 ''medium'', r_artifacts = [],
       r_version = ''v1.0'', r_created_at = 1000\<rparr>] \<and>
   reports_of 7 (fst (store_results example_world ''7'' (error_results (Raised ValueError (Text ''x'')))
      (fst (store_results example_world ''7'' (results_of 0.8) example_state)))) =
     [\<lparr>r_id = 100, r_analysis_id = 7, r_credibility_score = None,
       r_explanation = ErrorExplanation (Text ''x'') ''failed'', r_artifacts = [],
       r_version = ''v1.0'', r_created_at = 1000\<rparr>]"
proof -
  have h1: "uuid_of example_world ''7'' = Some 7"
    by (simp add: example_world_def)
  have h2: "distinct (map r_analysis_id (analysis_reports (db example_state)))"
    by (simp add: example_state_def)
  have h3: "reports_of 7 example_state = []"
    by (simp add: reports_of_def example_state_def)
  have first: "reports_of 7 (fst (store_results example_world ''7'' (results_of 0.8) example_state)) =
     [\<lparr>r_id = 100, r_analysis_id = 7, r_credibility_score = Some 0.8,
       r_explanation = ImageExplanation [] 0 0 ''medium'', r_artifacts = [],
       r_version = ''v1.0'', r_created_at = 1000\<rparr>]"
    by (simp add: reports_of_def store_results_def example_world_def example_state_def results_of_def)
  show ?thesis
    using second_store_overwrites_one_row [OF h1 h2, of "results_of 0.8"
        "error_results (Raised ValueError (Text ''x''))"] h1 h2 h3 first
    by (auto simp add: error_results_def)
qed

end
